theory Spec2Isabelle
  imports Complex_Main "HOL-Library.AList"
begin

section \<open>Values, errors and the store\<close>

text \<open>
  The evaluator (the module \<^verbatim>\<open>evaluate\<close> that \<^verbatim>\<open>rules.ts\<close> imports; in the sources it
  follows the tests of \<^verbatim>\<open>src/tests/arithmetic.js\<close>) works on JavaScript values. Arrays,
  objects, environments and functions are references: the syntax tree itself is a nest of
  arrays, and the evaluator reads it while it runs. A value therefore carries an address,
  and the contents live in a store. Numbers are the reals that JavaScript's doubles denote
  (rounding is not modelled), with \<open>NaN\<close> apart. \<open>VNil\<close> is \<^verbatim>\<open>undefined\<close>;
  \<^verbatim>\<open>null\<close>, which no rule of the parser and no form of the evaluator produces, is not
  among the values. \<open>VErr\<close> is the error object that a failed evaluation throws and a
  \<^verbatim>\<open>try\<close> form catches.
\<close>

type_synonym addr = nat

datatype err =
    UndefinedSymbol string
  | NotIndexable
  | MalformedIf string
  | BadArgDef
  | HostError string
  | TypeError string

datatype val =
    VNil
  | VNum real
  | VNaN
  | VStr string
  | VBool bool
  | VArr addr
  | VObj addr
  | VEnv addr
  | VFun addr
  | VErr err

text \<open>
  A property key is a string; the canonical decimal strings are the array indices, and a
  number used as a key is converted to its string. \<open>KIdx n\<close> stands for the decimal
  string of \<open>n\<close>, \<open>KName s\<close> for every other string.
\<close>

datatype pkey = KIdx nat | KName string

text \<open>
  A function object is a host function (opaque, known by name), a \<^verbatim>\<open>Lambda\<close> with its
  \<^verbatim>\<open>{ args, body, scope }\<close>, or the result of \<^verbatim>\<open>Function.prototype.bind\<close>. The
  \<^verbatim>\<open>isMacro\<close> flag and the name are properties that the evaluator writes.
\<close>

datatype fkind = Host string | Lambda val val addr | Bound addr val

record fcell =
  kind :: fkind
  isMacro :: bool
  fname :: string

text \<open>
  Modelled from the spec: the module \<^verbatim>\<open>./environment\<close> is not part of the sources. An
  environment is a mapping from symbol to value, chained through an optional parent
  handle, with a handle \<open>global\<close> to the top-most non-root scope of the evaluation.
\<close>

record ecell =
  vars :: "(pkey \<times> val) list"
  parent :: "addr option"
  global :: "addr option"

datatype jstype = TArr | TObj | TEnv | TFun | TStr | TNum | TBool | TErr

text \<open>
  The store. \<open>root\<close> is \<^verbatim>\<open>Environment.root\<close>. \<open>inherited\<close> gives, for each kind of
  value, the properties that a read finds on the JavaScript prototype chain when the value
  has no such property of its own; they belong to the host runtime.
\<close>

record store =
  arrs :: "val list list"
  objs :: "(pkey \<times> val) list list"
  envs :: "ecell list"
  funs :: "fcell list"
  root :: addr
  inherited :: "((jstype \<times> string) \<times> val) list"

text \<open>
  An evaluation returns a value, throws, or does not return within the given number of
  steps. \<open>Unmodelled\<close> marks the JavaScript behaviour this development leaves out
  (for instance the string that an array converts to when it is used as a property key).
\<close>

datatype 'a result = Done 'a store | Fail err store | OutOfFuel | Unmodelled

definition andThen :: "'a result \<Rightarrow> ('a \<Rightarrow> store \<Rightarrow> 'b result) \<Rightarrow> 'b result" where
  "andThen r k = (case r of Done v s \<Rightarrow> k v s | Fail e s \<Rightarrow> Fail e s
                  | OutOfFuel \<Rightarrow> OutOfFuel | Unmodelled \<Rightarrow> Unmodelled)"

subsection \<open>Reading and allocating\<close>

definition arr_of :: "store \<Rightarrow> addr \<Rightarrow> val list" where
  "arr_of s a = (if a < length (arrs s) then arrs s ! a else [])"

definition obj_of :: "store \<Rightarrow> addr \<Rightarrow> (pkey \<times> val) list" where
  "obj_of s a = (if a < length (objs s) then objs s ! a else [])"

definition env_of :: "store \<Rightarrow> addr \<Rightarrow> ecell" where
  "env_of s e = (if e < length (envs s) then envs s ! e
                 else \<lparr>vars = [], parent = None, global = None\<rparr>)"

definition fun_of :: "store \<Rightarrow> addr \<Rightarrow> fcell" where
  "fun_of s f = (if f < length (funs s) then funs s ! f
                 else \<lparr>kind = Host [], isMacro = False, fname = []\<rparr>)"

definition new_arr :: "val list \<Rightarrow> store \<Rightarrow> addr \<times> store" where
  "new_arr xs s = (length (arrs s), s\<lparr>arrs := arrs s @ [xs]\<rparr>)"

definition new_obj :: "(pkey \<times> val) list \<Rightarrow> store \<Rightarrow> addr \<times> store" where
  "new_obj ps s = (length (objs s), s\<lparr>objs := objs s @ [ps]\<rparr>)"

definition new_fun :: "fcell \<Rightarrow> store \<Rightarrow> addr \<times> store" where
  "new_fun c s = (length (funs s), s\<lparr>funs := funs s @ [c]\<rparr>)"

definition set_arr :: "addr \<Rightarrow> val list \<Rightarrow> store \<Rightarrow> store" where
  "set_arr a xs s = s\<lparr>arrs := (arrs s)[a := xs]\<rparr>"

definition set_obj :: "addr \<Rightarrow> (pkey \<times> val) list \<Rightarrow> store \<Rightarrow> store" where
  "set_obj a ps s = s\<lparr>objs := (objs s)[a := ps]\<rparr>"

definition set_vars :: "addr \<Rightarrow> (pkey \<times> val) list \<Rightarrow> store \<Rightarrow> store" where
  "set_vars e ps s = s\<lparr>envs := (envs s)[e := (env_of s e)\<lparr>vars := ps\<rparr>]\<rparr>"

definition set_fun :: "addr \<Rightarrow> fcell \<Rightarrow> store \<Rightarrow> store" where
  "set_fun f c s = s\<lparr>funs := (funs s)[f := c]\<rparr>"

text \<open>\<^verbatim>\<open>xs[i]\<close>: reading past the end of an array gives \<^verbatim>\<open>undefined\<close>.\<close>

definition nth_val :: "val list \<Rightarrow> nat \<Rightarrow> val" where
  "nth_val xs i = (if i < length xs then xs ! i else VNil)"

text \<open>
  Modelled from the spec: \<^verbatim>\<open>env.create()\<close> produces a new child scope whose parent is
  the receiver. The child of a scope with a global handle shares that handle; the child of
  a scope without one takes the receiver as its global, unless the receiver is the root.
\<close>

definition create :: "addr \<Rightarrow> store \<Rightarrow> addr \<times> store" where
  "create e s =
     (let g = (case global (env_of s e) of
                 Some g \<Rightarrow> Some g
               | None \<Rightarrow> if e = root s then None else Some e)
      in (length (envs s),
          s\<lparr>envs := envs s @ [\<lparr>vars = [], parent = Some e, global = g\<rparr>]\<rparr>))"

subsection \<open>JavaScript's tests on values\<close>

text \<open>Truthiness, as \<^verbatim>\<open>if (v)\<close>, \<^verbatim>\<open>!v\<close> and \<^verbatim>\<open>a || b\<close> see it.\<close>

fun truthy :: "val \<Rightarrow> bool" where
  "truthy VNil = False"
| "truthy (VNum r) = (r \<noteq> 0)"
| "truthy VNaN = False"
| "truthy (VStr s) = (s \<noteq> [])"
| "truthy (VBool b) = b"
| "truthy _ = True"

text \<open>\<^verbatim>\<open>Array.isArray(v)\<close>, \<^verbatim>\<open>v instanceof Function\<close>, \<^verbatim>\<open>typeof v === 'object'\<close>,
  \<^verbatim>\<open>typeof v === 'string'\<close>, \<^verbatim>\<open>typeof v === 'number'\<close>.\<close>

fun isArray :: "val \<Rightarrow> bool" where
  "isArray (VArr a) = True"
| "isArray _ = False"

fun isFunction :: "val \<Rightarrow> bool" where
  "isFunction (VFun f) = True"
| "isFunction _ = False"

fun typeof_object :: "val \<Rightarrow> bool" where
  "typeof_object (VArr a) = True"
| "typeof_object (VObj a) = True"
| "typeof_object (VEnv a) = True"
| "typeof_object (VErr e) = True"
| "typeof_object _ = False"

fun typeof_string :: "val \<Rightarrow> bool" where
  "typeof_string (VStr s) = True"
| "typeof_string _ = False"

fun typeof_number :: "val \<Rightarrow> bool" where
  "typeof_number (VNum r) = True"
| "typeof_number VNaN = True"
| "typeof_number _ = False"

text \<open>The elements of the array that a value refers to; no elements for any other value.\<close>

fun elems :: "store \<Rightarrow> val \<Rightarrow> val list" where
  "elems s (VArr a) = arr_of s a"
| "elems s _ = []"

subsection \<open>Property keys\<close>

definition is_digit :: "char \<Rightarrow> bool" where
  "is_digit c = (48 \<le> (of_char c :: nat) \<and> (of_char c :: nat) \<le> 57)"

definition digits_val :: "string \<Rightarrow> nat" where
  "digits_val ds = foldl (\<lambda>n c. 10 * n + (of_char c - 48)) 0 ds"

definition str_key :: "string \<Rightarrow> pkey" where
  "str_key k =
     (if k \<noteq> [] \<and> list_all is_digit k \<and> (hd k \<noteq> CHR ''0'' \<or> length k = 1)
      then KIdx (digits_val k) else KName k)"

text \<open>The decimal digits of an integer that is not negative.\<close>

function show_digits :: "int \<Rightarrow> string" where
  "show_digits n = (if n < 10 then [char_of (48 + n)]
                    else show_digits (n div 10) @ [char_of (48 + n mod 10)])"
  by pat_completeness auto
termination by (relation "measure nat") auto

declare show_digits.simps [simp del]

text \<open>
  The string of a number, for the numbers that JavaScript writes without an exponent and
  that need no rounding: the integers of magnitude below \<open>10\<^sup>2\<^sup>1\<close>, and the decimal
  fractions of at most 15 significant digits and of magnitude at least \<open>10\<^sup>-\<^sup>6\<close>.
  \<open>j\<close> is the number of digits after the point.
\<close>

definition number_string :: "real \<Rightarrow> string option" where
  "number_string r =
     (let m = \<bar>r\<bar>; sign = (if r < 0 then ''-'' else []) in
      if m < 10 ^ 21 \<and> of_int \<lfloor>m\<rfloor> = m then Some (sign @ show_digits \<lfloor>m\<rfloor>)
      else (case find (\<lambda>j. of_int \<lfloor>m * 10 ^ j\<rfloor> = m * 10 ^ j) [1 ..< 22] of
              Some j \<Rightarrow>
                if 1 \<le> m * 10 ^ 6 \<and> m * 10 ^ j < 10 ^ 15
                then Some (sign @ show_digits \<lfloor>m\<rfloor> @ ''.''
                           @ (let f = show_digits (\<lfloor>m * 10 ^ j\<rfloor> - \<lfloor>m\<rfloor> * 10 ^ j)
                              in replicate (j - length f) (CHR ''0'') @ f))
                else None
            | None \<Rightarrow> None))"

text \<open>
  The key that \<^verbatim>\<open>o[v]\<close> uses. A natural number below \<open>10\<^sup>2\<^sup>1\<close> is an index, any
  other number the name that is its string (\<^verbatim>\<open>-1\<close>, \<^verbatim>\<open>1.5\<close>). The numbers whose
  string \<open>number_string\<close> does not give, and references, convert to strings this
  development does not compute.
\<close>

fun to_key :: "val \<Rightarrow> pkey option" where
  "to_key (VStr k) = Some (str_key k)"
| "to_key (VNum r) =
     (if 0 \<le> r \<and> r < 10 ^ 21 \<and> of_int \<lfloor>r\<rfloor> = r then Some (KIdx (nat \<lfloor>r\<rfloor>))
      else map_option KName (number_string r))"
| "to_key VNaN = Some (KName ''NaN'')"
| "to_key VNil = Some (KName ''undefined'')"
| "to_key (VBool b) = Some (KName (if b then ''true'' else ''false''))"
| "to_key _ = None"

fun inherits :: "store \<Rightarrow> jstype \<Rightarrow> pkey \<Rightarrow> val" where
  "inherits s t (KName k) = (case map_of (inherited s) (t, k) of Some v \<Rightarrow> v | None \<Rightarrow> VNil)"
| "inherits s t (KIdx n) = VNil"

definition own :: "(pkey \<times> val) list \<Rightarrow> pkey \<Rightarrow> val option" where
  "own ps k = map_of ps k"

text \<open>The message that an error object carries.\<close>

fun message :: "err \<Rightarrow> string" where
  "message (UndefinedSymbol k) = ''Undefined symbol \"'' @ k @ ''\"''"
| "message NotIndexable = ''Cannot access member: not an array or object''"
| "message (MalformedIf m) = m"
| "message BadArgDef = ''Unknown argument expression''"
| "message (HostError m) = m"
| "message (TypeError m) = m"

text \<open>
  \<^verbatim>\<open>value[key]\<close> as a read. Reading a property of \<^verbatim>\<open>undefined\<close> throws a
  \<^verbatim>\<open>TypeError\<close>. An environment exposes \<open>parent\<close> and \<open>global\<close> besides its
  bindings. The \<^verbatim>\<open>lambda\<close> property of a function object has no value in this model.
\<close>

fun js_get :: "store \<Rightarrow> val \<Rightarrow> pkey \<Rightarrow> val result" where
  "js_get s VNil k = Fail (TypeError ''Cannot read properties of undefined'') s"
| "js_get s (VArr a) k =
     (case k of
        KIdx i \<Rightarrow> Done (nth_val (arr_of s a) i) s
      | KName n \<Rightarrow> if n = ''length'' then Done (VNum (real (length (arr_of s a)))) s
                   else Done (inherits s TArr k) s)"
| "js_get s (VObj a) k =
     (case own (obj_of s a) k of Some v \<Rightarrow> Done v s | None \<Rightarrow> Done (inherits s TObj k) s)"
| "js_get s (VEnv e) k =
     (case own (vars (env_of s e)) k of
        Some v \<Rightarrow> Done v s
      | None \<Rightarrow>
          if k = KName ''parent''
          then Done (case parent (env_of s e) of Some p \<Rightarrow> VEnv p | None \<Rightarrow> VNil) s
          else if k = KName ''global''
          then Done (case global (env_of s e) of Some g \<Rightarrow> VEnv g | None \<Rightarrow> VNil) s
          else Done (inherits s TEnv k) s)"
| "js_get s (VStr str) k =
     (case k of
        KIdx i \<Rightarrow> Done (if i < length str then VStr [str ! i] else VNil) s
      | KName n \<Rightarrow> if n = ''length'' then Done (VNum (real (length str))) s
                   else Done (inherits s TStr k) s)"
| "js_get s (VFun f) k =
     (if k = KName ''isMacro''
      then Done (if isMacro (fun_of s f) then VBool True else inherits s TFun k) s
      else if k = KName ''name'' then Done (VStr (fname (fun_of s f))) s
      else if k = KName ''lambda'' then Unmodelled
      else Done (inherits s TFun k) s)"
| "js_get s (VErr e) k =
     (if k = KName ''message'' then Done (VStr (message e)) s else Done (inherits s TErr k) s)"
| "js_get s (VNum r) k = Done (inherits s TNum k) s"
| "js_get s VNaN k = Done (inherits s TNum k) s"
| "js_get s (VBool b) k = Done (inherits s TBool k) s"

text \<open>
  \<^verbatim>\<open>value[key] = x\<close>. Writing past the end of an array extends it with
  \<^verbatim>\<open>undefined\<close>. Named properties on arrays, the prototype setter \<^verbatim>\<open>__proto__\<close>,
  and writes to primitives and error objects are left out.
\<close>

fun js_set :: "store \<Rightarrow> val \<Rightarrow> pkey \<Rightarrow> val \<Rightarrow> val result" where
  "js_set s VNil k x = Fail (TypeError ''Cannot set properties of undefined'') s"
| "js_set s (VArr a) k x =
     (case k of
        KIdx i \<Rightarrow>
          (let xs = arr_of s a in
           if a < length (arrs s)
           then Done x (set_arr a (if i < length xs then xs[i := x]
                                   else xs @ replicate (i - length xs) VNil @ [x]) s)
           else Unmodelled)
      | KName n \<Rightarrow> Unmodelled)"
| "js_set s (VObj a) k x =
     (if k = KName ''__proto__'' \<or> \<not> a < length (objs s) then Unmodelled
      else Done x (set_obj a (AList.update k x (obj_of s a)) s))"
| "js_set s (VEnv e) k x =
     (if k = KName ''parent'' \<or> k = KName ''global'' \<or> k = KName ''__proto__''
         \<or> \<not> e < length (envs s) then Unmodelled
      else Done x (set_vars e (AList.update k x (vars (env_of s e))) s))"
| "js_set s (VFun f) k x =
     (if k = KName ''isMacro'' \<and> f < length (funs s)
      then Done x (set_fun f ((fun_of s f)\<lparr>isMacro := truthy x\<rparr>) s)
      else Unmodelled)"
| "js_set s _ k x = Unmodelled"

section \<open>The evaluator\<close>

text \<open>
  \<^verbatim>\<open>evaluate\<close>, \<^verbatim>\<open>evaluateExpression\<close>, \<^verbatim>\<open>expandMacro\<close> and the call of a function
  object call one another, and \<^verbatim>\<open>evaluate\<close> is a \<^verbatim>\<open>while (true)\<close> loop, so none of
  them need return. Each is written here as one round of its body over a handle \<open>rc\<close>
  that stands for the nested calls and for the next round of a loop (\<^verbatim>\<open>continue\<close>);
  \<open>run\<close> below ties the knot with a step count.
\<close>

datatype req =
    Evaluate val addr
  | EvaluateExpression val addr
  | ExpandMacro val addr
  | Call val "val list"

type_synonym recur = "req \<Rightarrow> store \<Rightarrow> val result"

text \<open>
  Host functions are opaque: \<open>host ap name args\<close> is what the host function \<open>name\<close>
  does on evaluated arguments, where \<open>ap\<close> lets it call a function value back.
\<close>

type_synonym hostsem =
  "(val \<Rightarrow> val list \<Rightarrow> store \<Rightarrow> val result) \<Rightarrow> string \<Rightarrow> val list \<Rightarrow> store \<Rightarrow> val result"

subsection \<open>evaluateExpression\<close>

text \<open>
  \<^verbatim>\<open>ast.map((...a) => evaluate(a[0], env))\<close>: \<^verbatim>\<open>map\<close> visits the indices below the
  length the array had at the start and reads each element when it gets there.
\<close>

fun map_evaluate :: "recur \<Rightarrow> addr \<Rightarrow> addr \<Rightarrow> nat \<Rightarrow> nat \<Rightarrow> val list \<Rightarrow> store \<Rightarrow> (val list) result" where
  "map_evaluate rc a env i 0 acc s = Done acc s"
| "map_evaluate rc a env i (Suc k) acc s =
     andThen (rc (Evaluate (nth_val (arr_of s a) i) env) s)
       (\<lambda>v s1. map_evaluate rc a env (Suc i) k (acc @ [v]) s1)"

definition evaluateExpression :: "recur \<Rightarrow> val \<Rightarrow> addr \<Rightarrow> store \<Rightarrow> val result" where
  "evaluateExpression rc ast env s =
     (case ast of
        VArr a \<Rightarrow>
          andThen (map_evaluate rc a env 0 (length (arr_of s a)) [] s)
            (\<lambda>vs s1. case new_arr vs s1 of (el, s2) \<Rightarrow> Done (VArr el) s2)
      | VStr k \<Rightarrow>
          if k = ''local'' then Done (VEnv env) s
          else if k = ''global''
          then Done (case global (env_of s env) of Some g \<Rightarrow> VEnv g | None \<Rightarrow> VNil) s
          else (case own (vars (env_of s env)) (str_key k) of
                  Some v \<Rightarrow> Done v s
                | None \<Rightarrow>
                   (case parent (env_of s env) of
                      Some p \<Rightarrow> rc (EvaluateExpression ast p) s
                    | None \<Rightarrow>
                       (case own (vars (env_of s (root s))) (str_key k) of
                          Some v \<Rightarrow> Done v s
                        | None \<Rightarrow> Fail (UndefinedSymbol k) s)))
      | _ \<Rightarrow> Done ast s)"

subsection \<open>bindFunctionScope\<close>

text \<open>\<^verbatim>\<open>boundEnv[key] = x\<close>, the key being any value.\<close>

definition env_put :: "addr \<Rightarrow> val \<Rightarrow> val \<Rightarrow> store \<Rightarrow> unit result" where
  "env_put e key x s =
     (case to_key key of
        None \<Rightarrow> Unmodelled
      | Some k \<Rightarrow> andThen (js_set s (VEnv e) k x) (\<lambda>_ s1. Done () s1))"

text \<open>The callback of \<^verbatim>\<open>args.forEach((a, i) => ...)\<close> at index \<open>i\<close>.\<close>

definition bind_arg :: "recur \<Rightarrow> addr \<Rightarrow> val list \<Rightarrow> addr \<Rightarrow> nat \<Rightarrow> store \<Rightarrow> unit result" where
  "bind_arg rc args given boundEnv i s =
     (let a = nth_val (arr_of s args) i in
      if a = VStr ''&''
      then (case new_arr (drop i given) s of
              (rest, s1) \<Rightarrow> env_put boundEnv (nth_val (arr_of s args) (i + 1)) (VArr rest) s1)
      else if typeof_string a
      then env_put boundEnv a (nth_val given i) s
      else if isArray a
      then (let d = elems s a in
            if nth_val d 0 = VStr ''def'' \<and> nth_val d 1 \<noteq> VNil
            then (if nth_val given i \<noteq> VNil
                  then env_put boundEnv (nth_val d 1) (nth_val given i) s
                  else andThen (evaluateExpression rc (nth_val d 2) boundEnv s)
                         (\<lambda>v s1. env_put boundEnv (nth_val d 1) v s1))
            else if nth_val d 0 = VStr ''...'' \<and> nth_val d 1 \<noteq> VNil
            then (case new_arr (drop i given) s of
                    (rest, s1) \<Rightarrow> env_put boundEnv (nth_val d 1) (VArr rest) s1)
            else (case new_arr [a] s of
                    (single, s1) \<Rightarrow>
                      andThen (evaluateExpression rc (VArr single) boundEnv s1) (\<lambda>_ s2. Done () s2)))
      else Fail BadArgDef s)"

text \<open>
  \<^verbatim>\<open>forEach\<close> runs the callback for \<open>i\<close>, \<open>i + 1\<close>, ... up to the length the array had
  at the start (\<open>k\<close> indices are left), skipping an index the array no longer has.
\<close>

fun bind_args :: "recur \<Rightarrow> addr \<Rightarrow> val list \<Rightarrow> addr \<Rightarrow> nat \<Rightarrow> nat \<Rightarrow> store \<Rightarrow> unit result" where
  "bind_args rc args given boundEnv i 0 s = Done () s"
| "bind_args rc args given boundEnv i (Suc k) s =
     andThen (if i < length (arr_of s args) then bind_arg rc args given boundEnv i s
              else Done () s)
       (\<lambda>_ s1. bind_args rc args given boundEnv (Suc i) k s1)"

definition bindFunctionScope :: "recur \<Rightarrow> addr \<Rightarrow> val \<Rightarrow> val list \<Rightarrow> store \<Rightarrow> addr result" where
  "bindFunctionScope rc env args given s =
     (case create env s of
        (boundEnv, s1) \<Rightarrow>
          (case args of
             VArr a \<Rightarrow>
               andThen (bind_args rc a given boundEnv 0 (length (arr_of s1 a)) s1)
                 (\<lambda>_ s2. Done boundEnv s2)
           | VObj _ \<Rightarrow> Unmodelled
           | VEnv _ \<Rightarrow> Unmodelled
           | VFun _ \<Rightarrow> Unmodelled
           | VErr _ \<Rightarrow> Unmodelled
           | _ \<Rightarrow> Fail (TypeError ''args.forEach is not a function'') s1))"

subsection \<open>expandMacro and calls\<close>

text \<open>A property read inside a condition; the reads used this way do not throw.\<close>

definition read_prop :: "store \<Rightarrow> val \<Rightarrow> pkey \<Rightarrow> val" where
  "read_prop s v k = (case js_get s v k of Done x _ \<Rightarrow> x | _ \<Rightarrow> VNil)"

text \<open>\<^verbatim>\<open>env[ ast[0] ] && env[ ast[0] ].isMacro\<close> for a symbol \<open>h\<close> at the head.\<close>

definition is_macro :: "store \<Rightarrow> addr \<Rightarrow> string \<Rightarrow> bool" where
  "is_macro s env h =
     (let m = read_prop s (VEnv env) (str_key h)
      in truthy m \<and> truthy (read_prop s m (KName ''isMacro'')))"

text \<open>
  One round of the \<^verbatim>\<open>while\<close> loop of \<^verbatim>\<open>expandMacro\<close>: the macro is called on the
  unevaluated tail \<^verbatim>\<open>ast.slice(1)\<close>, and the loop goes on with what it returns.
\<close>

definition expandMacro :: "recur \<Rightarrow> val \<Rightarrow> addr \<Rightarrow> store \<Rightarrow> val result" where
  "expandMacro rc ast env s =
     (case ast of
        VArr a \<Rightarrow>
          (case nth_val (arr_of s a) 0 of
             VStr h \<Rightarrow>
               if is_macro s env h
               then andThen (rc (Call (read_prop s (VEnv env) (str_key h)) (tl (arr_of s a))) s)
                      (\<lambda>ast1 s1. rc (ExpandMacro ast1 env) s1)
               else Done ast s
           | _ \<Rightarrow> Done ast s)
      | _ \<Rightarrow> Done ast s)"

text \<open>
  A JavaScript call \<^verbatim>\<open>f(...args)\<close>. The function that the \<^verbatim>\<open>lambda\<close> form builds
  runs \<^verbatim>\<open>evaluate(body, bindFunctionScope(env, args, givenArgs))\<close>.
\<close>

definition call :: "hostsem \<Rightarrow> recur \<Rightarrow> val \<Rightarrow> val list \<Rightarrow> store \<Rightarrow> val result" where
  "call host rc f given s =
     (case f of
        VFun a \<Rightarrow>
          (case kind (fun_of s a) of
             Lambda largs body scope \<Rightarrow>
               andThen (bindFunctionScope rc scope largs given s)
                 (\<lambda>boundEnv s1. rc (Evaluate body boundEnv) s1)
           | Host name \<Rightarrow> host (\<lambda>g xs. rc (Call g xs)) name given s
           | Bound target this \<Rightarrow> rc (Call (VFun target) given) s)
      | _ \<Rightarrow> Fail (TypeError ''not a function'') s)"

subsection \<open>The special forms\<close>

text \<open>
  In each form \<open>a\<close> is the address of the array \<^verbatim>\<open>ast\<close>. An element \<^verbatim>\<open>ast[i]\<close> is
  read from the store as it is when the source reads it, so a read that follows a nested
  evaluation sees what that evaluation did to the array.
\<close>

text \<open>\<^verbatim>\<open>case '~': case 'macro':\<close>\<close>

definition eval_macro :: "recur \<Rightarrow> addr \<Rightarrow> addr \<Rightarrow> store \<Rightarrow> val result" where
  "eval_macro rc a env s =
     andThen (rc (Evaluate (nth_val (arr_of s a) 1) env) s)
       (\<lambda>f s1. andThen (js_set s1 f (KName ''isMacro'') (VBool True)) (\<lambda>_ s2. Done f s2))"

text \<open>\<^verbatim>\<open>case 'eva':\<close>\<close>

definition eval_eva :: "recur \<Rightarrow> addr \<Rightarrow> addr \<Rightarrow> store \<Rightarrow> val result" where
  "eval_eva rc a env s =
     andThen (rc (Evaluate (nth_val (arr_of s a) 1) env) s)
       (\<lambda>ast1 s1. rc (Evaluate ast1 env) s1)"

text \<open>
  \<^verbatim>\<open>case 'list':\<close> the values that \<^verbatim>\<open>list.push(...v)\<close> appends: the elements of an
  array, the characters of a string; nothing else is iterable.
\<close>

fun spread :: "store \<Rightarrow> val \<Rightarrow> val list option" where
  "spread s (VArr a) = Some (arr_of s a)"
| "spread s (VStr str) = Some (map (\<lambda>c. VStr [c]) str)"
| "spread s _ = None"

fun list_items :: "recur \<Rightarrow> addr \<Rightarrow> val list \<Rightarrow> val list \<Rightarrow> store \<Rightarrow> (val list) result" where
  "list_items rc env [] acc s = Done acc s"
| "list_items rc env (expr # exprs) acc s =
     (if isArray expr \<and> nth_val (elems s expr) 0 = VStr ''...''
      then (case new_arr (tl (elems s expr)) s of
              (rest, s1) \<Rightarrow>
                andThen (rc (Evaluate (VArr rest) env) s1)
                  (\<lambda>v s2. case spread s2 v of
                             Some vs \<Rightarrow> list_items rc env exprs (acc @ vs) s2
                           | None \<Rightarrow> Fail (TypeError ''not iterable'') s2))
      else andThen (rc (Evaluate expr env) s)
             (\<lambda>v s1. list_items rc env exprs (acc @ [v]) s1))"

definition eval_list :: "recur \<Rightarrow> addr \<Rightarrow> addr \<Rightarrow> store \<Rightarrow> val result" where
  "eval_list rc a env s =
     andThen (list_items rc env (tl (arr_of s a)) [] s)
       (\<lambda>vs s1. case new_arr vs s1 of (l, s2) \<Rightarrow> Done (VArr l) s2)"

text \<open>
  \<^verbatim>\<open>case 'obj':\<close> \<^verbatim>\<open>Object.assign(obj, src)\<close> copies the own enumerable properties
  of \<open>src\<close>; those of a function or error object are not modelled.
\<close>

definition put_all :: "(pkey \<times> val) list \<Rightarrow> (pkey \<times> val) list \<Rightarrow> (pkey \<times> val) list" where
  "put_all obj ps = foldl (\<lambda>ob kv. AList.update (fst kv) (snd kv) ob) obj ps"

fun assign :: "store \<Rightarrow> (pkey \<times> val) list \<Rightarrow> val \<Rightarrow> (pkey \<times> val) list option" where
  "assign s obj (VObj a) = Some (put_all obj (obj_of s a))"
| "assign s obj (VEnv e) = Some (put_all obj (vars (env_of s e)))"
| "assign s obj (VArr a) =
     Some (put_all obj (zip (map KIdx [0 ..< length (arr_of s a)]) (arr_of s a)))"
| "assign s obj (VStr str) =
     Some (put_all obj (zip (map KIdx [0 ..< length str]) (map (\<lambda>c. VStr [c]) str)))"
| "assign s obj (VFun f) = None"
| "assign s obj (VErr e) = None"
| "assign s obj _ = Some obj"

text \<open>\<^verbatim>\<open>obj[ key ] = evaluate(right, env)\<close> with the key taken from \<open>left\<close>.\<close>

definition obj_entry :: "recur \<Rightarrow> addr \<Rightarrow> val \<Rightarrow> val \<Rightarrow> (pkey \<times> val) list \<Rightarrow> store \<Rightarrow> ((pkey \<times> val) list) result" where
  "obj_entry rc env left right obj s =
     andThen (if typeof_object left then rc (Evaluate left env) s else Done left s)
       (\<lambda>key s1.
          andThen (rc (Evaluate right env) s1)
            (\<lambda>v s2. case to_key key of
                       None \<Rightarrow> Unmodelled
                     | Some k \<Rightarrow> if k = KName ''__proto__'' then Unmodelled
                                 else Done (AList.update k v obj) s2))"

text \<open>The callback of \<^verbatim>\<open>ast.slice(1).reduce((obj, pair) => ..., {})\<close>.\<close>

definition obj_pair :: "recur \<Rightarrow> addr \<Rightarrow> val \<Rightarrow> (pkey \<times> val) list \<Rightarrow> store \<Rightarrow> ((pkey \<times> val) list) result" where
  "obj_pair rc env pair obj s =
     (if pair = VNil \<or> \<not> isArray pair then Done obj s
      else if nth_val (elems s pair) 1 = VNil
      then (let left = nth_val (elems s pair) 0 in
            if isArray left \<and> nth_val (elems s left) 0 = VStr ''...''
            then (case new_arr (tl (elems s left)) s of
                    (rest, s1) \<Rightarrow>
                      andThen (rc (Evaluate (VArr rest) env) s1)
                        (\<lambda>src s2. case assign s2 obj src of
                                     Some obj1 \<Rightarrow> Done obj1 s2
                                   | None \<Rightarrow> Unmodelled))
            else obj_entry rc env left left obj s)
      else obj_entry rc env (nth_val (elems s pair) 0) (nth_val (elems s pair) 1) obj s)"

fun obj_pairs :: "recur \<Rightarrow> addr \<Rightarrow> val list \<Rightarrow> (pkey \<times> val) list \<Rightarrow> store \<Rightarrow> ((pkey \<times> val) list) result" where
  "obj_pairs rc env [] obj s = Done obj s"
| "obj_pairs rc env (pair # pairs) obj s =
     andThen (obj_pair rc env pair obj s) (\<lambda>obj1 s1. obj_pairs rc env pairs obj1 s1)"

definition eval_obj :: "recur \<Rightarrow> addr \<Rightarrow> addr \<Rightarrow> store \<Rightarrow> val result" where
  "eval_obj rc a env s =
     andThen (obj_pairs rc env (tl (arr_of s a)) [] s)
       (\<lambda>obj s1. case new_obj obj s1 of (ob, s2) \<Rightarrow> Done (VObj ob) s2)"

text \<open>
  \<^verbatim>\<open>case 'def':\<close> with a list as target, \<^verbatim>\<open>result\<close> is a fresh copy of the target;
  its last element is popped and evaluated to the member key, and
  \<^verbatim>\<open>['def', key, value]\<close> is pushed in its place. Otherwise the value is evaluated, a
  function value takes the name of the variable, and a symbol is bound in
  \<^verbatim>\<open>env.global || env\<close>.
\<close>

definition def_scope :: "store \<Rightarrow> addr \<Rightarrow> addr" where
  "def_scope s env = (case global (env_of s env) of Some g \<Rightarrow> g | None \<Rightarrow> env)"

definition name_function :: "val \<Rightarrow> val \<Rightarrow> store \<Rightarrow> store" where
  "name_function value varName s =
     (case value of
        VFun f \<Rightarrow>
          set_fun f ((fun_of s f)\<lparr>fname := (case varName of VStr n \<Rightarrow> n | _ \<Rightarrow> ''anonymous'')\<rparr>) s
      | _ \<Rightarrow> s)"

definition eval_def :: "recur \<Rightarrow> addr \<Rightarrow> addr \<Rightarrow> store \<Rightarrow> val result" where
  "eval_def rc a env s =
     (let varName = nth_val (arr_of s a) 1; value = nth_val (arr_of s a) 2 in
      if isArray varName
      then (case new_arr (elems s varName) s of
              (result, s1) \<Rightarrow>
                (let member = (if arr_of s1 result = [] then VNil else last (arr_of s1 result));
                     s2 = set_arr result (butlast (arr_of s1 result)) s1
                 in andThen (rc (Evaluate member env) s2)
                      (\<lambda>key s3.
                         case new_arr [VStr ''def'', key, value] s3 of
                           (setter, s4) \<Rightarrow>
                             rc (Evaluate (VArr result) env)
                                (set_arr result (arr_of s4 result @ [VArr setter]) s4))))
      else andThen (rc (Evaluate value env) s)
             (\<lambda>v s1.
                let s2 = name_function v varName s1 in
                case varName of
                  VStr n \<Rightarrow>
                    andThen (js_set s2 (VEnv (def_scope s2 env)) (str_key n) v)
                      (\<lambda>_ s3. Done v s3)
                | _ \<Rightarrow> Done VNil s2))"

text \<open>
  \<^verbatim>\<open>case 'get':\<close> the loop \<^verbatim>\<open>for (const member of members)\<close> over the copy
  \<^verbatim>\<open>ast.slice(2)\<close>, from the value reached so far.
\<close>

fun get_members :: "recur \<Rightarrow> addr \<Rightarrow> val \<Rightarrow> val list \<Rightarrow> store \<Rightarrow> val result" where
  "get_members rc env value [] s = Done value s"
| "get_members rc env value (member # members) s =
     (if isArray member \<and> nth_val (elems s member) 0 = VStr ''def''
      then andThen (rc (Evaluate (nth_val (elems s member) 2) env) s)
             (\<lambda>x s1. case to_key (nth_val (elems s member) 1) of
                        None \<Rightarrow> Unmodelled
                      | Some k \<Rightarrow> js_set s1 value k x)
      else andThen (rc (Evaluate member env) s)
             (\<lambda>key s1.
                if isFunction key
                then andThen (rc (Call key [value]) s1)
                       (\<lambda>v s2. get_members rc env v members s2)
                else if \<not> typeof_string key \<and> \<not> typeof_number key then Done VNil s1
                else (case to_key key of
                        None \<Rightarrow> Unmodelled
                      | Some k \<Rightarrow>
                          andThen (js_get s1 value k)
                            (\<lambda>x s2.
                               if x = VNil \<or> k = KName ''__proto__'' then Done VNil s2
                               else (case x of
                                       VFun f \<Rightarrow>
                                         (case new_fun \<lparr>kind = Bound f value, isMacro = False,
                                                        fname = ''bound '' @ fname (fun_of s2 f)\<rparr> s2 of
                                            (b, s3) \<Rightarrow> get_members rc env (VFun b) members s3)
                                     | _ \<Rightarrow> get_members rc env x members s2)))))"

definition eval_get :: "recur \<Rightarrow> addr \<Rightarrow> addr \<Rightarrow> store \<Rightarrow> val result" where
  "eval_get rc a env s =
     (let members = drop 2 (arr_of s a) in
      andThen (rc (Evaluate (nth_val (arr_of s a) 1) env) s)
        (\<lambda>rootValue s1.
           if members = [] then Done rootValue s1
           else if \<not> typeof_object rootValue then Fail NotIndexable s1
           else get_members rc env rootValue members s1))"

text \<open>
  \<^verbatim>\<open>case 'try':\<close> the \<^verbatim>\<open>catch\<close> clause catches whatever the evaluation throws; it
  does not run when the evaluation does not return.
\<close>

definition eval_try :: "recur \<Rightarrow> addr \<Rightarrow> addr \<Rightarrow> store \<Rightarrow> val result" where
  "eval_try rc a env s =
     (case rc (Evaluate (nth_val (arr_of s a) 1) env) s of
        Fail e s1 \<Rightarrow>
          (let handler = nth_val (arr_of s1 a) 2 in
           if \<not> isArray handler then Done VNil s1
           else (let argDef = nth_val (elems s1 handler) 1;
                     body = nth_val (elems s1 handler) 2
                 in case new_arr [argDef] s1 of
                      (defs, s2) \<Rightarrow>
                        andThen (bindFunctionScope rc env (VArr defs) [VErr e] s2)
                          (\<lambda>boundEnv s3. rc (Evaluate body boundEnv) s3)))
      | r \<Rightarrow> r)"

text \<open>\<^verbatim>\<open>case '\<lambda>': case 'lambda':\<close>\<close>

definition eval_lambda :: "recur \<Rightarrow> addr \<Rightarrow> addr \<Rightarrow> store \<Rightarrow> val result" where
  "eval_lambda rc a env s =
     (case (if isArray (nth_val (arr_of s a) 1) then (nth_val (arr_of s a) 1, s)
           else (case new_arr [] s of (e, s1) \<Rightarrow> (VArr e, s1))) of
        (args, s1) \<Rightarrow>
          (case new_fun \<lparr>kind = Lambda args (nth_val (arr_of s a) 2) env,
                         isMacro = False, fname = []\<rparr> s1 of
             (f, s2) \<Rightarrow> Done (VFun f) s2))"

text \<open>
  \<^verbatim>\<open>case 'let':\<close> \<^verbatim>\<open>pairs.forEach((value, i) => { if (i % 2) ... })\<close> binds the
  value at each odd index under the key before it.
\<close>

fun let_pairs :: "recur \<Rightarrow> addr \<Rightarrow> addr \<Rightarrow> nat \<Rightarrow> nat \<Rightarrow> store \<Rightarrow> unit result" where
  "let_pairs rc pairs env i 0 s = Done () s"
| "let_pairs rc pairs env i (Suc k) s =
     andThen (if i < length (arr_of s pairs) \<and> odd i
              then (let key = nth_val (arr_of s pairs) (i - 1) in
                    andThen (rc (Evaluate (nth_val (arr_of s pairs) i) env) s)
                      (\<lambda>v s1. env_put env key v s1))
              else Done () s)
       (\<lambda>_ s1. let_pairs rc pairs env (Suc i) k s1)"

definition eval_let :: "recur \<Rightarrow> addr \<Rightarrow> addr \<Rightarrow> store \<Rightarrow> val result" where
  "eval_let rc a env s =
     (case nth_val (arr_of s a) 1 of
        VArr pairs \<Rightarrow>
          (case create env s of
             (env1, s1) \<Rightarrow>
               andThen (let_pairs rc pairs env1 0 (length (arr_of s1 pairs)) s1)
                 (\<lambda>_ s2. rc (Evaluate (nth_val (arr_of s2 a) 2) env1) s2))
      | _ \<Rightarrow> Done VNil s)"

text \<open>\<^verbatim>\<open>case 'do':\<close>\<close>

definition eval_do :: "recur \<Rightarrow> addr \<Rightarrow> addr \<Rightarrow> store \<Rightarrow> val result" where
  "eval_do rc a env s =
     (let lst = length (arr_of s a) - 1 in
      if lst = 0 then Done VNil s
      else (case new_arr (take (lst - 1) (drop 1 (arr_of s a))) s of
              (effects, s1) \<Rightarrow>
                andThen (evaluateExpression rc (VArr effects) env s1)
                  (\<lambda>_ s2. rc (Evaluate (nth_val (arr_of s2 a) lst) env) s2)))"

text \<open>\<^verbatim>\<open>case 'if':\<close>\<close>

definition eval_if :: "recur \<Rightarrow> addr \<Rightarrow> addr \<Rightarrow> store \<Rightarrow> val result" where
  "eval_if rc a env s =
     (if nth_val (arr_of s a) 1 = VNil then Fail (MalformedIf ''No condition for if'') s
      else if nth_val (arr_of s a) 2 = VNil then Fail (MalformedIf ''No true branch for if'') s
      else if nth_val (arr_of s a) 3 = VNil
      then andThen (rc (Evaluate (nth_val (arr_of s a) 1) env) s)
             (\<lambda>c s1. if \<not> truthy c then Done VNil s1
                      else rc (Evaluate (nth_val (arr_of s1 a) 2) env) s1)
      else andThen (rc (Evaluate (nth_val (arr_of s a) 1) env) s)
             (\<lambda>c s1. rc (Evaluate (if truthy c then nth_val (arr_of s1 a) 2
                                    else nth_val (arr_of s1 a) 3) env) s1))"

text \<open>
  The default case, \<^verbatim>\<open>Invoke list form\<close>: every element is evaluated, and the first
  one is the function. A \<^verbatim>\<open>Lambda\<close> is not called: the loop goes on with its body in
  the scope that \<^verbatim>\<open>bindFunctionScope\<close> builds.
\<close>

definition eval_invoke :: "recur \<Rightarrow> val \<Rightarrow> addr \<Rightarrow> store \<Rightarrow> val result" where
  "eval_invoke rc ast env s =
     andThen (evaluateExpression rc ast env s)
       (\<lambda>el s1.
          let f = nth_val (elems s1 el) 0; given = tl (elems s1 el) in
          if f = VNil then Done VNil s1
          else if isArray f \<and> nth_val (elems s1 f) 0 = VStr ''lambda''
          then (let body = nth_val (elems s1 f) 2 in
                andThen (bindFunctionScope rc env (nth_val (elems s1 f) 1) given s1)
                  (\<lambda>boundEnv s2. rc (Evaluate body boundEnv) s2))
          else (case f of
                  VFun fa \<Rightarrow>
                    (case kind (fun_of s1 fa) of
                       Lambda largs body scope \<Rightarrow>
                         andThen (bindFunctionScope rc scope largs given s1)
                           (\<lambda>boundEnv s2. rc (Evaluate body boundEnv) s2)
                     | _ \<Rightarrow> rc (Call f given) s1)
                | _ \<Rightarrow> Done f s1))"

subsection \<open>evaluate\<close>

text \<open>
  One round of the \<^verbatim>\<open>while (true)\<close> loop. The string \<^verbatim>\<open>'\<lambda>'\<close> is written as the two
  bytes of its UTF-8 encoding.
\<close>

definition special :: "recur \<Rightarrow> string \<Rightarrow> val \<Rightarrow> addr \<Rightarrow> addr \<Rightarrow> store \<Rightarrow> val result" where
  "special rc h ast a env s =
     (if h = ''~'' \<or> h = ''macro'' then eval_macro rc a env s
      else if h = [CHR 0x60] \<or> h = ''expr'' then Done (nth_val (arr_of s a) 1) s
      else if h = ''eva'' then eval_eva rc a env s
      else if h = ''comment'' then Done VNil s
      else if h = ''list'' then eval_list rc a env s
      else if h = ''obj'' then eval_obj rc a env s
      else if h = ''def'' then eval_def rc a env s
      else if h = ''get'' then eval_get rc a env s
      else if h = ''try'' then eval_try rc a env s
      else if h = [CHR 0xCE, CHR 0xBB] \<or> h = ''lambda'' then eval_lambda rc a env s
      else if h = ''let'' then eval_let rc a env s
      else if h = ''do'' then eval_do rc a env s
      else if h = ''if'' then eval_if rc a env s
      else eval_invoke rc ast env s)"

definition evaluate_round :: "recur \<Rightarrow> val \<Rightarrow> addr \<Rightarrow> store \<Rightarrow> val result" where
  "evaluate_round rc ast env s =
     (if \<not> isArray ast then evaluateExpression rc ast env s
      else andThen (expandMacro rc ast env s)
             (\<lambda>ast1 s1.
                case ast1 of
                  VArr a \<Rightarrow>
                    (case nth_val (arr_of s1 a) 0 of
                       VStr h \<Rightarrow> special rc h ast1 a env s1
                     | _ \<Rightarrow> eval_invoke rc ast1 env s1)
                | _ \<Rightarrow> evaluateExpression rc ast1 env s1))"

text \<open>
  \<open>run host n\<close> answers a request within \<open>n\<close> nested calls and loop rounds, and
  \<open>evaluate host n ast env s\<close> is \<^verbatim>\<open>evaluate(ast, env)\<close> in the store \<open>s\<close>. It is
  \<open>OutOfFuel\<close> when \<open>n\<close> steps are not enough. The environment is always given: the
  default, \<^verbatim>\<open>createEnvironment()\<close>, belongs to the module that is not part of the
  sources.
\<close>

primrec run :: "hostsem \<Rightarrow> nat \<Rightarrow> req \<Rightarrow> store \<Rightarrow> val result" where
  "run host 0 = (\<lambda>r s. OutOfFuel)"
| "run host (Suc n) =
     (\<lambda>r s. case r of
               Evaluate ast env \<Rightarrow> evaluate_round (run host n) ast env s
             | EvaluateExpression ast env \<Rightarrow> evaluateExpression (run host n) ast env s
             | ExpandMacro ast env \<Rightarrow> expandMacro (run host n) ast env s
             | Call f given \<Rightarrow> call host (run host n) f given s)"

definition evaluate :: "hostsem \<Rightarrow> nat \<Rightarrow> val \<Rightarrow> addr \<Rightarrow> store \<Rightarrow> val result" where
  "evaluate host n ast env s = run host n (Evaluate ast env) s"

section \<open>The parse rules\<close>

text \<open>
  \<^verbatim>\<open>rules.ts\<close> lists the rules of the Pratt parser: a pattern, a name, a power and the
  two handlers, one for the prefix position and one for the position after a left
  operand (\<open>prefix_handler\<close> and \<open>infix_handler\<close> below). A token is a rule together with the text it
  matched (\<^verbatim>\<open>this.value\<close>). The handlers build the syntax tree as nested arrays; no
  array is shared while they run, so the tree is a datatype here, and \<open>load\<close> below puts
  it into a store for the evaluator.
\<close>

datatype expr = XNil | XNum real | XNaN | XStr string | XList "expr list"

datatype rule =
    R_number | R_if | R_or | R_and | R_not | R_symbol | R_single_quoted | R_double_quoted
  | R_close | R_end | R_comma | R_apply | R_lambda | R_question | R_colon
  | R_oror | R_andand | R_eq | R_neq | R_bang | R_le | R_lt | R_ge | R_gt | R_set
  | R_plus | R_minus | R_times | R_divide | R_open

datatype token = Token rule string

datatype 'a parsed = Parsed 'a "token list" | ParseError string | ParseFuel | ParseUnmodelled

definition thenParse :: "'a parsed \<Rightarrow> ('a \<Rightarrow> token list \<Rightarrow> 'b parsed) \<Rightarrow> 'b parsed" where
  "thenParse r k = (case r of Parsed x ts \<Rightarrow> k x ts | ParseError m \<Rightarrow> ParseError m
                    | ParseFuel \<Rightarrow> ParseFuel | ParseUnmodelled \<Rightarrow> ParseUnmodelled)"

text \<open>The \<^verbatim>\<open>power\<close> field of each rule.\<close>

fun power_of :: "rule \<Rightarrow> nat" where
  "power_of R_number = 0"
| "power_of R_if = 20"
| "power_of R_or = 30"
| "power_of R_and = 30"
| "power_of R_not = 70"
| "power_of R_symbol = 0"
| "power_of R_single_quoted = 0"
| "power_of R_double_quoted = 0"
| "power_of R_close = 0"
| "power_of R_end = 0"
| "power_of R_comma = 5"
| "power_of R_apply = 60"
| "power_of R_lambda = 70"
| "power_of R_question = 20"
| "power_of R_colon = 0"
| "power_of R_oror = 30"
| "power_of R_andand = 30"
| "power_of R_eq = 40"
| "power_of R_neq = 40"
| "power_of R_bang = 70"
| "power_of R_le = 40"
| "power_of R_lt = 40"
| "power_of R_ge = 40"
| "power_of R_gt = 40"
| "power_of R_set = 10"
| "power_of R_plus = 50"
| "power_of R_minus = 50"
| "power_of R_times = 60"
| "power_of R_divide = 60"
| "power_of R_open = 80"

subsection \<open>JavaScript on the matched text\<close>

definition is_space :: "char \<Rightarrow> bool" where
  "is_space c = (c = CHR '' '' \<or> c = CHR 0x09 \<or> c = CHR 0x0A \<or> c = CHR 0x0B
                 \<or> c = CHR 0x0C \<or> c = CHR 0x0D)"

definition trim :: "string \<Rightarrow> string" where
  "trim v = rev (dropWhile is_space (rev (dropWhile is_space v)))"

text \<open>
  \<^verbatim>\<open>parseFloat\<close> on the text of a number token: digits with an optional fraction; what
  follows them is ignored. Signs, exponents and \<^verbatim>\<open>Infinity\<close> are left out; any other
  text gives \<open>NaN\<close>.
\<close>

definition parseFloat :: "string \<Rightarrow> expr option" where
  "parseFloat v =
     (let t = dropWhile is_space v;
          ip = takeWhile is_digit t;
          r1 = dropWhile is_digit t;
          fp = (if r1 \<noteq> [] \<and> hd r1 = CHR ''.'' then takeWhile is_digit (tl r1) else []);
          r2 = (if fp = [] then r1 else dropWhile is_digit (tl r1))
      in if ip = [] \<and> fp = []
         then (if t \<noteq> [] \<and> hd t \<in> {CHR ''+'', CHR ''-'', CHR ''I''} then None else Some XNaN)
         else if r2 \<noteq> [] \<and> hd r2 \<in> {CHR ''e'', CHR ''E''} then None
         else Some (XNum (real (digits_val ip) + real (digits_val fp) / 10 ^ length fp)))"

text \<open>
  \<^verbatim>\<open>JSON.parse\<close> on a string literal: the characters between the double quotes, with
  the escapes decoded. A raw double quote or control character, or an unknown escape, is a
  \<^verbatim>\<open>SyntaxError\<close>; \<^verbatim>\<open>\u\<close> escapes are left out.
\<close>

datatype unescaped = Unescaped string | BadJson | UnmodelledJson

fun json_body :: "string \<Rightarrow> unescaped" where
  "json_body [] = Unescaped []"
| "json_body [c] =
     (if c = CHR 0x5C \<or> c = CHR 0x22 \<or> (of_char c :: nat) < 32 then BadJson else Unescaped [c])"
| "json_body (c # d # cs) =
     (if c = CHR 0x5C
      then (if d = CHR ''u'' then UnmodelledJson
            else (case map_of [(CHR 0x22, CHR 0x22), (CHR 0x5C, CHR 0x5C), (CHR ''/'', CHR ''/''),
                               (CHR ''b'', CHR 0x08), (CHR ''f'', CHR 0x0C), (CHR ''n'', CHR 0x0A),
                               (CHR ''r'', CHR 0x0D), (CHR ''t'', CHR 0x09)] d of
                    None \<Rightarrow> BadJson
                  | Some e \<Rightarrow> (case json_body cs of Unescaped r \<Rightarrow> Unescaped (e # r) | u \<Rightarrow> u)))
      else if c = CHR 0x22 \<or> (of_char c :: nat) < 32 then BadJson
      else (case json_body (d # cs) of Unescaped r \<Rightarrow> Unescaped (c # r) | u \<Rightarrow> u))"

definition json_parse_string :: "string \<Rightarrow> unescaped" where
  "json_parse_string v =
     (let t = trim v in
      if 2 \<le> length t \<and> hd t = CHR 0x22 \<and> last t = CHR 0x22
      then json_body (butlast (tl t)) else BadJson)"

text \<open>\<^verbatim>\<open>['`', JSON.parse(...)]\<close>\<close>

definition quoted :: "unescaped \<Rightarrow> token list \<Rightarrow> expr parsed" where
  "quoted u ts =
     (case u of
        Unescaped str \<Rightarrow> Parsed (XList [XStr [CHR 0x60], XStr str]) ts
      | BadJson \<Rightarrow> ParseError ''SyntaxError''
      | UnmodelledJson \<Rightarrow> ParseUnmodelled)"

text \<open>
  The unary minus of \<^verbatim>\<open>-parser.nextExpression(70)\<close>: a number is negated; a symbol,
  \<^verbatim>\<open>undefined\<close> and an array of two or more elements convert to \<open>NaN\<close>.
\<close>

fun negate :: "expr \<Rightarrow> expr option" where
  "negate (XNum r) = Some (XNum (- r))"
| "negate XNaN = Some XNaN"
| "negate XNil = Some XNaN"
| "negate (XStr v) =
     (if v \<noteq> [] \<and> \<not> is_digit (hd v) \<and> \<not> is_space (hd v)
         \<and> hd v \<notin> {CHR ''+'', CHR ''-'', CHR ''.''} \<and> v \<noteq> ''Infinity''
      then Some XNaN else None)"
| "negate (XList xs) = (if 2 \<le> length xs then Some XNaN else None)"

fun xtruthy :: "expr \<Rightarrow> bool" where
  "xtruthy XNil = False"
| "xtruthy (XNum r) = (r \<noteq> 0)"
| "xtruthy XNaN = False"
| "xtruthy (XStr v) = (v \<noteq> [])"
| "xtruthy (XList xs) = True"

text \<open>
  Modelled from the spec: \<^verbatim>\<open>Parser.isArgumentList\<close> is not part of the sources. A
  comma list aggregates into an argument marker, the list that \<^verbatim>\<open>'args..'\<close> heads.
\<close>

fun isArgumentList :: "expr \<Rightarrow> bool" where
  "isArgumentList (XList (XStr h # xs)) = (h = ''args..'')"
| "isArgumentList _ = False"

subsection \<open>The handlers\<close>

text \<open>
  \<open>ne\<close> is \<^verbatim>\<open>parser.nextExpression\<close>: \<open>ne p ts\<close> parses one expression with binding
  power \<open>p\<close> from the tokens \<open>ts\<close> and returns it with the tokens that are left.
\<close>

type_synonym next_expression = "nat \<Rightarrow> token list \<Rightarrow> expr parsed"

definition binary :: "next_expression \<Rightarrow> string \<Rightarrow> nat \<Rightarrow> expr \<Rightarrow> token list \<Rightarrow> expr parsed" where
  "binary ne name p left ts =
     thenParse (ne p ts) (\<lambda>right ts1. Parsed (XList [XStr name, left, right]) ts1)"

definition prefix_handler :: "next_expression \<Rightarrow> rule \<Rightarrow> string \<Rightarrow> token list \<Rightarrow> expr parsed" where
  "prefix_handler ne r v ts =
     (case r of
        R_number \<Rightarrow> (case parseFloat v of Some x \<Rightarrow> Parsed x ts | None \<Rightarrow> ParseUnmodelled)
      | R_if \<Rightarrow>
          thenParse (ne (power_of R_if) ts) (\<lambda>condition ts1.
          thenParse (ne (power_of R_if) ts1) (\<lambda>t1 ts2.
          thenParse (if t1 = XStr ''then'' then ne (power_of R_if) ts2 else Parsed t1 ts2)
            (\<lambda>trueBranch ts3.
          thenParse (ne (power_of R_if) ts3) (\<lambda>f1 ts4.
          thenParse (if f1 = XStr ''else'' then ne (power_of R_if) ts4 else Parsed f1 ts4)
            (\<lambda>falseBranch ts5.
          Parsed (XList [XStr ''if'', condition, trueBranch, falseBranch]) ts5)))))
      | R_not \<Rightarrow> thenParse (ne 0 ts) (\<lambda>x ts1. Parsed (XList [XStr ''!'', x]) ts1)
      | R_symbol \<Rightarrow> Parsed (XStr (trim v)) ts
      | R_single_quoted \<Rightarrow>
          quoted (json_parse_string ([CHR 0x22] @ butlast (tl v) @ [CHR 0x22])) ts
      | R_double_quoted \<Rightarrow> quoted (json_parse_string v) ts
      | R_colon \<Rightarrow> ne 0 ts
      | R_bang \<Rightarrow> thenParse (ne 0 ts) (\<lambda>x ts1. Parsed (XList [XStr ''!'', x]) ts1)
      | R_plus \<Rightarrow> ne 70 ts
      | R_minus \<Rightarrow>
          thenParse (ne 70 ts)
            (\<lambda>x ts1. case negate x of Some y \<Rightarrow> Parsed y ts1 | None \<Rightarrow> ParseUnmodelled)
      | R_times \<Rightarrow> ParseError ''no handler for the prefix position''
      | R_divide \<Rightarrow> ParseError ''no handler for the prefix position''
      | R_open \<Rightarrow>
          thenParse (ne 0 ts) (\<lambda>x ts1.
          thenParse (ne (power_of R_open) ts1) (\<lambda>_ ts2. Parsed x ts2))
      | _ \<Rightarrow> Parsed XNil ts)"

definition infix_handler :: "next_expression \<Rightarrow> rule \<Rightarrow> expr \<Rightarrow> token list \<Rightarrow> expr parsed" where
  "infix_handler ne r left ts =
     (case r of
        R_number \<Rightarrow> ParseError ''no handler for a left operand''
      | R_symbol \<Rightarrow> ParseError ''no handler for a left operand''
      | R_single_quoted \<Rightarrow> ParseError ''no handler for a left operand''
      | R_double_quoted \<Rightarrow> ParseError ''no handler for a left operand''
      | R_if \<Rightarrow> Parsed left ts
      | R_or \<Rightarrow> binary ne ''||'' (power_of R_or) left ts
      | R_and \<Rightarrow> binary ne ''&&'' (power_of R_and) left ts
      | R_not \<Rightarrow> Parsed XNil ts
      | R_close \<Rightarrow> Parsed XNil ts
      | R_end \<Rightarrow>
          thenParse (ne 0 ts)
            (\<lambda>right ts1. if right = XNil then Parsed left ts1
                          else Parsed (XList [left, XStr '';'', right]) ts1)
      | R_comma \<Rightarrow>
          thenParse (ne 70 ts)
            (\<lambda>right ts1.
               let args = (if isArgumentList left then (case left of XList xs \<Rightarrow> xs | _ \<Rightarrow> [])
                           else if left \<noteq> XNil then [XStr ''args..'', left]
                           else [XStr ''args..''])
               in Parsed (XList (if right \<noteq> XNil then args @ [right] else args)) ts1)
      | R_apply \<Rightarrow>
          thenParse (ne (power_of R_apply) ts)
            (\<lambda>right ts1. if left = XNil then Parsed right ts1
                          else Parsed (XList [right, left]) ts1)
      | R_lambda \<Rightarrow>
          thenParse (ne 0 ts)
            (\<lambda>right ts1.
               Parsed (XList [XStr ''lambda'',
                              if isArgumentList left then left else XList [XStr ''args..'', left],
                              right]) ts1)
      | R_question \<Rightarrow>
          thenParse (ne (power_of R_question) ts) (\<lambda>trueBranch ts1.
          thenParse (ne (power_of R_question) ts1) (\<lambda>falseBranch ts2.
          Parsed (XList [XStr ''if'', left, trueBranch, falseBranch]) ts2))
      | R_colon \<Rightarrow>
          thenParse (ne 0 ts)
            (\<lambda>right ts1.
               case left of
                 XList (XStr h # xs) \<Rightarrow>
                   if h = ''if''
                   then Parsed (if xtruthy right then XList (XStr h # xs @ [right]) else left) ts1
                   else Parsed (XList [left, right]) ts1
               | _ \<Rightarrow> Parsed (XList [left, right]) ts1)
      | R_oror \<Rightarrow> binary ne ''||'' (power_of R_oror) left ts
      | R_andand \<Rightarrow> binary ne ''&&'' (power_of R_andand) left ts
      | R_eq \<Rightarrow> binary ne ''=='' (power_of R_eq) left ts
      | R_neq \<Rightarrow> binary ne ''!='' (power_of R_neq) left ts
      | R_bang \<Rightarrow> Parsed XNil ts
      | R_le \<Rightarrow> binary ne ''<='' (power_of R_le) left ts
      | R_lt \<Rightarrow> binary ne ''<'' (power_of R_lt) left ts
      | R_ge \<Rightarrow> binary ne ''>='' (power_of R_ge) left ts
      | R_gt \<Rightarrow> binary ne ''>'' (power_of R_gt) left ts
      | R_set \<Rightarrow> binary ne ''set'' (power_of R_set) left ts
      | R_plus \<Rightarrow> binary ne ''+'' (power_of R_plus) left ts
      | R_minus \<Rightarrow> binary ne ''-'' (power_of R_minus) left ts
      | R_times \<Rightarrow> binary ne ''*'' (power_of R_times) left ts
      | R_divide \<Rightarrow> binary ne ''/'' (power_of R_divide) left ts
      | R_open \<Rightarrow>
          thenParse (ne 0 ts) (\<lambda>right ts1.
          thenParse (ne (power_of R_open) ts1)
            (\<lambda>_ ts2. if left = XNil then Parsed right ts2
                      else Parsed (XList [left, right]) ts2)))"

subsection \<open>The Pratt loop\<close>

text \<open>
  Modelled from the spec: \<^verbatim>\<open>Parser.nextExpression\<close> is not part of the sources. It is
  top-down operator precedence parsing, as in the article that \<^verbatim>\<open>rules.ts\<close> cites: the
  prefix handler of the next token gives the left-hand expression, and while the token
  that follows has a power above the given one, that token's handler for a left operand
  takes the expression. At the end of the input there is nothing to parse and
  the expression is \<^verbatim>\<open>undefined\<close>. The step count bounds the nesting of calls and the
  rounds of the loop.
\<close>

datatype parse_req = NextExpression nat "token list" | InfixLoop nat expr "token list"

definition next_round :: "(parse_req \<Rightarrow> expr parsed) \<Rightarrow> nat \<Rightarrow> token list \<Rightarrow> expr parsed" where
  "next_round rc p ts =
     (case ts of
        [] \<Rightarrow> Parsed XNil []
      | Token r v # ts1 \<Rightarrow>
          thenParse (prefix_handler (\<lambda>q us. rc (NextExpression q us)) r v ts1)
            (\<lambda>left ts2. rc (InfixLoop p left ts2)))"

definition loop_round :: "(parse_req \<Rightarrow> expr parsed) \<Rightarrow> nat \<Rightarrow> expr \<Rightarrow> token list \<Rightarrow> expr parsed" where
  "loop_round rc p left ts =
     (case ts of
        [] \<Rightarrow> Parsed left []
      | Token r v # ts1 \<Rightarrow>
          if p < power_of r
          then thenParse (infix_handler (\<lambda>q us. rc (NextExpression q us)) r left ts1)
                 (\<lambda>left1 ts2. rc (InfixLoop p left1 ts2))
          else Parsed left ts)"

primrec parse_run :: "nat \<Rightarrow> parse_req \<Rightarrow> expr parsed" where
  "parse_run 0 = (\<lambda>q. ParseFuel)"
| "parse_run (Suc n) =
     (\<lambda>q. case q of
             NextExpression p ts \<Rightarrow> next_round (parse_run n) p ts
           | InfixLoop p left ts \<Rightarrow> loop_round (parse_run n) p left ts)"

definition nextExpression :: "nat \<Rightarrow> nat \<Rightarrow> token list \<Rightarrow> expr parsed" where
  "nextExpression n p ts = parse_run n (NextExpression p ts)"

text \<open>The loop of \<open>nextExpression\<close> over the operators that follow a left operand.\<close>

definition operator_loop :: "nat \<Rightarrow> nat \<Rightarrow> expr \<Rightarrow> token list \<Rightarrow> expr parsed" where
  "operator_loop n p left ts = parse_run n (InfixLoop p left ts)"

text \<open>The syntax tree as the nested arrays that the parser returns, in a store.\<close>

fun load :: "expr \<Rightarrow> store \<Rightarrow> val \<times> store"
  and load_list :: "expr list \<Rightarrow> store \<Rightarrow> val list \<times> store" where
  "load XNil s = (VNil, s)"
| "load (XNum r) s = (VNum r, s)"
| "load XNaN s = (VNaN, s)"
| "load (XStr v) s = (VStr v, s)"
| "load (XList xs) s =
     (case load_list xs s of (vs, s1) \<Rightarrow> (case new_arr vs s1 of (a, s2) \<Rightarrow> (VArr a, s2)))"
| "load_list [] s = ([], s)"
| "load_list (x # xs) s =
     (case load x s of (v, s1) \<Rightarrow> (case load_list xs s1 of (vs, s2) \<Rightarrow> (v # vs, s2)))"

section \<open>Observations, operators and hosts\<close>

text \<open>What an evaluation returned, and what it threw.\<close>

fun returned :: "'a result \<Rightarrow> 'a option" where
  "returned (Done v s) = Some v"
| "returned _ = None"

fun thrown :: "'a result \<Rightarrow> err option" where
  "thrown (Fail e s) = Some e"
| "thrown _ = None"

fun final_store :: "'a result \<Rightarrow> store option" where
  "final_store (Done v s) = Some s"
| "final_store (Fail e s) = Some s"
| "final_store _ = None"


text \<open>The contents of a list in the store that an evaluation ends in.\<close>

definition array_after :: "'a result \<Rightarrow> addr \<Rightarrow> val list" where
  "array_after r c = (case final_store r of Some s \<Rightarrow> arr_of s c | None \<Rightarrow> [])"

text \<open>
  The binary operators of \<^verbatim>\<open>rules.ts\<close>: the rules whose handler for a left operand
  returns \<^verbatim>\<open>[name, left, right]\<close> with \<^verbatim>\<open>right = parser.nextExpression(this.power)\<close>,
  and the name each of them puts at the head.
\<close>

definition binary_rules :: "rule list" where
  "binary_rules = [R_or, R_and, R_oror, R_andand, R_eq, R_neq, R_le, R_lt, R_ge, R_gt,
                   R_set, R_plus, R_minus, R_times, R_divide]"

fun name_of :: "rule \<Rightarrow> string" where
  "name_of R_or = ''||''"
| "name_of R_and = ''&&''"
| "name_of R_oror = ''||''"
| "name_of R_andand = ''&&''"
| "name_of R_eq = ''==''"
| "name_of R_neq = ''!=''"
| "name_of R_le = ''<=''"
| "name_of R_lt = ''<''"
| "name_of R_ge = ''>=''"
| "name_of R_gt = ''>''"
| "name_of R_set = ''set''"
| "name_of R_plus = ''+''"
| "name_of R_minus = ''-''"
| "name_of R_times = ''*''"
| "name_of R_divide = ''/''"
| "name_of _ = []"

text \<open>An operand: a symbol or a number token, with the expression its prefix handler gives.\<close>

fun operand :: "token \<Rightarrow> expr option" where
  "operand (Token R_symbol v) = Some (XStr (trim v))"
| "operand (Token R_number v) = parseFloat v"
| "operand _ = None"

text \<open>A host without functions: whatever is called throws.\<close>

definition no_host :: hostsem where
  "no_host ap name given s = Fail (HostError name) s"

text \<open>
  Modelled from the spec: the host functions are not part of the sources. The standard
  bindings supply \<^verbatim>\<open>+\<close> and \<^verbatim>\<open>*\<close> as the host functions \<open>add\<close> and \<open>multiply\<close>;
  on two numbers they are the sum and the product.
\<close>

definition std_host :: hostsem where
  "std_host ap name given s =
     (if name = ''add''
      then (case given of VNum x # VNum y # _ \<Rightarrow> Done (VNum (x + y)) s | _ \<Rightarrow> Unmodelled)
      else if name = ''multiply''
      then (case given of VNum x # VNum y # _ \<Rightarrow> Done (VNum (x * y)) s | _ \<Rightarrow> Unmodelled)
      else Fail (HostError name) s)"

text \<open>
  A store for the examples: the root environment binds \<^verbatim>\<open>+\<close> and \<^verbatim>\<open>*\<close>, and
  environment \<open>1\<close> is a user global, a fresh child of the root.
\<close>

definition std_store :: store where
  "std_store =
     \<lparr>arrs = [], objs = [],
      envs = [\<lparr>vars = [(KName ''+'', VFun 0), (KName ''*'', VFun 1)], parent = None, global = None\<rparr>,
              \<lparr>vars = [], parent = Some 0, global = None\<rparr>],
      funs = [\<lparr>kind = Host ''add'', isMacro = False, fname = ''add''\<rparr>,
              \<lparr>kind = Host ''multiply'', isMacro = False, fname = ''multiply''\<rparr>],
      root = 0, inherited = []\<rparr>"

text \<open>The tokens of \<^verbatim>\<open>1 + 2 * 3\<close> and of \<^verbatim>\<open>(1 + 2) * 3\<close>.\<close>

definition tokens_sum_product :: "token list" where
  "tokens_sum_product =
     [Token R_number ''1'', Token R_plus ''+'', Token R_number ''2'', Token R_times ''*'',
      Token R_number ''3'']"

definition tokens_grouped :: "token list" where
  "tokens_grouped =
     [Token R_open ''('', Token R_number ''1'', Token R_plus ''+'', Token R_number ''2'',
      Token R_close '')'', Token R_times ''*'', Token R_number ''3'']"

text \<open>The tokens of \<^verbatim>\<open>!b * c\<close>, \<^verbatim>\<open>not b * c\<close>, \<^verbatim>\<open>+b * c\<close> and \<^verbatim>\<open>-2 * 3\<close>.\<close>

definition tokens_bang_product :: "token list" where
  "tokens_bang_product =
     [Token R_bang ''!'', Token R_symbol ''b'', Token R_times ''*'', Token R_symbol ''c'']"

definition tokens_not_product :: "token list" where
  "tokens_not_product =
     [Token R_not ''not'', Token R_symbol ''b'', Token R_times ''*'', Token R_symbol ''c'']"

definition tokens_plus_product :: "token list" where
  "tokens_plus_product =
     [Token R_plus ''+'', Token R_symbol ''b'', Token R_times ''*'', Token R_symbol ''c'']"

definition tokens_minus_product :: "token list" where
  "tokens_minus_product =
     [Token R_minus ''-'', Token R_number ''2'', Token R_times ''*'', Token R_number ''3'']"

text \<open>\<^verbatim>\<open>evaluate(parse(source))\<close> on the tokens of the source, in the user global of \<open>std_store\<close>.\<close>

definition parse_evaluate :: "nat \<Rightarrow> token list \<Rightarrow> val result" where
  "parse_evaluate n ts =
     (case nextExpression n 0 ts of
        Parsed x [] \<Rightarrow> (case load x std_store of (ast, s) \<Rightarrow> evaluate std_host n ast 1 s)
      | _ \<Rightarrow> Unmodelled)"

section \<open>Example stores\<close>

text \<open>
  In each of them environment \<open>0\<close> is the root and environment \<open>1\<close> a user global.
  \<open>store_member_of_number\<close> holds \<^verbatim>\<open>a.b\<close>, that is \<^verbatim>\<open>['get', 'a', ['`', 'b']]\<close>, with
  \<open>a\<close> bound to \<open>5\<close>.
\<close>

definition store_member_of_number :: store where
  "store_member_of_number =
     \<lparr>arrs = [[VStr ''get'', VStr ''a'', VArr 1], [VStr [CHR 0x60], VStr ''b'']],
      objs = [],
      envs = [\<lparr>vars = [], parent = None, global = None\<rparr>,
              \<lparr>vars = [(KName ''a'', VNum 5)], parent = Some 0, global = None\<rparr>],
      funs = [], root = 0, inherited = []\<rparr>"

text \<open>\<^verbatim>\<open>['if']\<close>, \<^verbatim>\<open>['if', 0, 1]\<close> and \<^verbatim>\<open>['if', 1, 2, 3]\<close>.\<close>

definition store_if :: store where
  "store_if =
     \<lparr>arrs = [[VStr ''if''], [VStr ''if'', VNum 0, VNum 1], [VStr ''if'', VNum 1, VNum 2, VNum 3]],
      objs = [],
      envs = [\<lparr>vars = [], parent = None, global = None\<rparr>,
              \<lparr>vars = [], parent = Some 0, global = None\<rparr>],
      funs = [], root = 0, inherited = []\<rparr>"

text \<open>\<^verbatim>\<open>['obj', 5, undefined, 'x', ['a', 1]]\<close>: one pair among entries that are no lists.\<close>

definition store_obj :: store where
  "store_obj =
     \<lparr>arrs = [[VStr ''obj'', VNum 5, VNil, VStr ''x'', VArr 1], [VStr ''a'', VNum 1]],
      objs = [],
      envs = [\<lparr>vars = [], parent = None, global = None\<rparr>,
              \<lparr>vars = [], parent = Some 0, global = None\<rparr>],
      funs = [], root = 0, inherited = []\<rparr>"


text \<open>
  \<^verbatim>\<open>['def', 'x', 5]\<close> and \<^verbatim>\<open>a.b = 'hi'\<close>, that is
  \<^verbatim>\<open>['def', ['get', 'a', ['`', 'b']], ['`', 'hi']]\<close>, with \<open>a\<close> bound to the empty object
  in the user global. The user global, environment \<open>1\<close>, has no global handle.
  Environment \<open>2\<close> is a local scope in it, and environment \<open>3\<close> a local scope in
  environment \<open>2\<close>: its parent is \<open>2\<close>, its global handle \<open>1\<close>.
\<close>

definition store_def :: store where
  "store_def =
     \<lparr>arrs = [[VStr ''def'', VStr ''x'', VNum 5],
              [VStr ''def'', VArr 2, VArr 4],
              [VStr ''get'', VStr ''a'', VArr 3], [VStr [CHR 0x60], VStr ''b''],
              [VStr [CHR 0x60], VStr ''hi'']],
      objs = [[]],
      envs = [\<lparr>vars = [], parent = None, global = None\<rparr>,
              \<lparr>vars = [(KName ''a'', VObj 0)], parent = Some 0, global = None\<rparr>,
              \<lparr>vars = [], parent = Some 1, global = Some 1\<rparr>,
              \<lparr>vars = [], parent = Some 2, global = Some 1\<rparr>],
      funs = [], root = 0, inherited = []\<rparr>"

text \<open>
  \<^verbatim>\<open>try\<close> forms over the unbound symbol \<open>nope\<close>: with the handler
  \<^verbatim>\<open>['handler', 'e', 'e']\<close>, with the handler \<open>5\<close>, with the handler
  \<^verbatim>\<open>['catch', 'e', 'e']\<close>, with the handler \<^verbatim>\<open>[]\<close> and with the handler
  \<^verbatim>\<open>['catch', ['...', 'e'], 'e']\<close>; and \<^verbatim>\<open>['try', 7, ['catch', 'e', 'e']]\<close>.
\<close>

definition store_try :: store where
  "store_try =
     \<lparr>arrs = [[VStr ''try'', VStr ''nope'', VArr 1], [VStr ''handler'', VStr ''e'', VStr ''e''],
              [VStr ''try'', VStr ''nope'', VNum 5],
              [VStr ''try'', VStr ''nope'', VArr 4], [VStr ''catch'', VStr ''e'', VStr ''e''],
              [VStr ''try'', VNum 7, VArr 4],
              [VStr ''try'', VStr ''nope'', VArr 7], [],
              [VStr ''try'', VStr ''nope'', VArr 9], [VStr ''catch'', VArr 10, VStr ''e''],
              [VStr ''...'', VStr ''e'']],
      objs = [],
      envs = [\<lparr>vars = [], parent = None, global = None\<rparr>,
              \<lparr>vars = [], parent = Some 0, global = None\<rparr>],
      funs = [], root = 0, inherited = []\<rparr>"


text \<open>
  \<^verbatim>\<open>['def', ['get', ['`', [1]], 0], 2]\<close>: the base of the member access is a quoted
  list, list \<open>3\<close> of the syntax tree.
\<close>

definition store_quoted_target :: store where
  "store_quoted_target =
     \<lparr>arrs = [[VStr ''def'', VArr 1, VNum 2], [VStr ''get'', VArr 2, VNum 0],
              [VStr [CHR 0x60], VArr 3], [VNum 1]],
      objs = [],
      envs = [\<lparr>vars = [], parent = None, global = None\<rparr>,
              \<lparr>vars = [], parent = Some 0, global = None\<rparr>],
      funs = [], root = 0, inherited = []\<rparr>"

section \<open>Properties of the evaluator\<close>

lemma run_Evaluate: "run host n (Evaluate ast env) s = evaluate host n ast env s"
  by (simp add: evaluate_def)

lemma run_Evaluate_fun: "run host n (Evaluate ast env) = evaluate host n ast env"
  by (rule ext) (simp add: evaluate_def)

text \<open>
  A list whose head is a symbol that the current environment does not bind to a macro
  is dispatched on that symbol.
\<close>

lemma evaluate_special:
  assumes "nth_val (arr_of s a) 0 = VStr h" and "\<not> is_macro s env h"
  shows "evaluate host (Suc n) (VArr a) env s = special (run host n) h (VArr a) a env s"
  using assms by (simp add: evaluate_def evaluate_round_def expandMacro_def andThen_def)

subsection \<open>The conditional\<close>

text \<open>
  C3. For an \<^verbatim>\<open>['if', ...]\<close> form (that no macro named \<open>if\<close> rewrites): when the
  condition (element 1) or the then-branch (element 2) is nil, evaluation fails with
  MalformedIf; when the else-branch (element 3) is nil and the condition evaluates to a
  false value, evaluation returns nil; otherwise evaluation continues with the selected
  branch, the then-branch for a true condition and the else-branch for a false one.
\<close>

theorem if_form:
  assumes "nth_val (arr_of s a) 0 = VStr ''if''"
    and "\<not> is_macro s env ''if''"
  shows "(nth_val (arr_of s a) 1 = VNil \<or> nth_val (arr_of s a) 2 = VNil
            \<longrightarrow> (\<exists>m. evaluate host (Suc n) (VArr a) env s = Fail (MalformedIf m) s))
       \<and> (nth_val (arr_of s a) 1 \<noteq> VNil \<and> nth_val (arr_of s a) 2 \<noteq> VNil
            \<and> nth_val (arr_of s a) 3 = VNil
            \<and> evaluate host n (nth_val (arr_of s a) 1) env s = Done c s1 \<and> \<not> truthy c
            \<longrightarrow> evaluate host (Suc n) (VArr a) env s = Done VNil s1)
       \<and> (nth_val (arr_of s a) 1 \<noteq> VNil \<and> nth_val (arr_of s a) 2 \<noteq> VNil
            \<and> evaluate host n (nth_val (arr_of s a) 1) env s = Done c s1
            \<and> (truthy c \<or> nth_val (arr_of s a) 3 \<noteq> VNil)
            \<longrightarrow> evaluate host (Suc n) (VArr a) env s =
                  evaluate host n (if truthy c then nth_val (arr_of s1 a) 2
                                   else nth_val (arr_of s1 a) 3) env s1)"
  by (simp add: evaluate_special[OF assms] special_def eval_if_def run_Evaluate andThen_def)

theorem if_form_witness:
  "(\<exists>m. evaluate no_host 1 (VArr 0) 1 store_if = Fail (MalformedIf m) store_if)
   \<and> evaluate no_host 2 (VArr 1) 1 store_if = Done VNil store_if
   \<and> evaluate no_host 2 (VArr 2) 1 store_if = Done (VNum 2) store_if"
proof -
  have m: "\<not> is_macro store_if 1 ''if''" by code_simp
  have h0: "nth_val (arr_of store_if 0) 0 = VStr ''if''" by code_simp
  have c0: "nth_val (arr_of store_if 0) 1 = VNil" by code_simp
  have p0: "\<exists>m. evaluate no_host (Suc 0) (VArr 0) 1 store_if = Fail (MalformedIf m) store_if"
    using if_form[OF h0 m, of no_host 0] c0 by blast
  have h1: "nth_val (arr_of store_if 1) 0 = VStr ''if''" by code_simp
  have c1: "nth_val (arr_of store_if 1) 1 \<noteq> VNil \<and> nth_val (arr_of store_if 1) 2 \<noteq> VNil
            \<and> nth_val (arr_of store_if 1) 3 = VNil
            \<and> evaluate no_host (Suc 0) (nth_val (arr_of store_if 1) 1) 1 store_if = Done (VNum 0) store_if
            \<and> \<not> truthy (VNum 0)" by code_simp
  have p1: "evaluate no_host (Suc (Suc 0)) (VArr 1) 1 store_if = Done VNil store_if"
    using if_form[OF h1 m, of no_host "Suc 0" "VNum 0" store_if] c1 by blast
  have h2: "nth_val (arr_of store_if 2) 0 = VStr ''if''" by code_simp
  have c2: "nth_val (arr_of store_if 2) 1 \<noteq> VNil \<and> nth_val (arr_of store_if 2) 2 \<noteq> VNil
            \<and> evaluate no_host (Suc 0) (nth_val (arr_of store_if 2) 1) 1 store_if = Done (VNum 1) store_if
            \<and> (truthy (VNum 1) \<or> nth_val (arr_of store_if 2) 3 \<noteq> VNil)" by code_simp
  have r2: "evaluate no_host (Suc 0) (if truthy (VNum 1) then nth_val (arr_of store_if 2) 2
                                  else nth_val (arr_of store_if 2) 3) 1 store_if
            = Done (VNum 2) store_if" by code_simp
  have p2: "evaluate no_host (Suc (Suc 0)) (VArr 2) 1 store_if = Done (VNum 2) store_if"
    using if_form[OF h2 m, of no_host "Suc 0" "VNum 1" store_if] c2 r2 by metis
  have n1: "(1::nat) = Suc 0" and n2: "(2::nat) = Suc (Suc 0)" by simp_all
  show ?thesis using p0 p1 p2 unfolding n1 n2 by blast
qed

subsection \<open>Member access\<close>

text \<open>
  C4. For a \<^verbatim>\<open>['get', base, ...members]\<close> form with at least one member (that no
  macro named \<open>get\<close> rewrites): when the base evaluates to a value that is neither an
  object nor a list, evaluation fails with NotIndexable. The witness is \<^verbatim>\<open>a.b\<close> with
  \<open>a\<close> bound to the number \<open>5\<close>.
\<close>

theorem get_not_indexable:
  assumes "nth_val (arr_of s a) 0 = VStr ''get''"
    and "\<not> is_macro s env ''get''"
    and "drop 2 (arr_of s a) \<noteq> []"
    and "evaluate host n (nth_val (arr_of s a) 1) env s = Done v s1"
    and "\<not> typeof_object v"
  shows "evaluate host (Suc n) (VArr a) env s = Fail NotIndexable s1"
  using assms(3-5)
  by (simp add: evaluate_special[OF assms(1,2)] special_def eval_get_def run_Evaluate andThen_def)

theorem get_not_indexable_witness:
  "evaluate no_host 2 (VArr 0) 1 store_member_of_number = Fail NotIndexable store_member_of_number"
proof -
  have h1: "nth_val (arr_of store_member_of_number 0) 0 = VStr ''get''" by code_simp
  have h2: "\<not> is_macro store_member_of_number 1 ''get''" by code_simp
  have h3: "drop 2 (arr_of store_member_of_number 0) \<noteq> []" by code_simp
  have h4: "evaluate no_host 1 (nth_val (arr_of store_member_of_number 0) 1) 1 store_member_of_number
            = Done (VNum 5) store_member_of_number" by code_simp
  have h5: "\<not> typeof_object (VNum 5)" by simp
  from get_not_indexable[OF h1 h2 h3 h4 h5] show ?thesis by (simp add: numeral_2_eq_2)
qed









subsection \<open>Objects\<close>

lemma obj_pair_skip: "\<not> isArray pair \<Longrightarrow> obj_pair rc env pair obj s = Done obj s"
  by (simp add: obj_pair_def)

lemma obj_pairs_filter:
  "obj_pairs rc env pairs obj s = obj_pairs rc env (filter isArray pairs) obj s"
proof (induction pairs arbitrary: obj s)
  case Nil
  show ?case by simp
next
  case (Cons p ps)
  show ?case
  proof (cases "isArray p")
    case True
    have "obj_pairs rc env ps = obj_pairs rc env (filter isArray ps)"
      by (intro ext) (rule Cons.IH)
    with True show ?thesis by simp
  next
    case False
    then show ?thesis by (simp add: obj_pair_skip andThen_def Cons.IH)
  qed
qed

lemma obj_pairs_none:
  "\<forall>p \<in> set pairs. \<not> isArray p \<Longrightarrow> obj_pairs rc env pairs obj s = Done obj s"
  by (induction pairs arbitrary: obj s) (simp_all add: obj_pair_skip andThen_def)

text \<open>
  C10. For an \<^verbatim>\<open>['obj', ...entries]\<close> form (that no macro named \<open>obj\<close> rewrites),
  every entry that is nil or not a list is skipped: the form evaluates as the same form
  with only its list-shaped entries does, and when no entry is a list the result is the
  empty object, with no error.
\<close>

theorem obj_skips_non_lists:
  assumes "nth_val (arr_of s a) 0 = VStr ''obj''"
    and "\<not> is_macro s env ''obj''"
  shows "evaluate host (Suc n) (VArr a) env s =
           andThen (obj_pairs (run host n) env (filter isArray (tl (arr_of s a))) [] s)
             (\<lambda>obj s1. Done (VObj (length (objs s1))) (s1\<lparr>objs := objs s1 @ [obj]\<rparr>))
       \<and> ((\<forall>p \<in> set (tl (arr_of s a)). \<not> isArray p)
            \<longrightarrow> evaluate host (Suc n) (VArr a) env s =
                  Done (VObj (length (objs s))) (s\<lparr>objs := objs s @ [[]]\<rparr>))"
proof -
  have e: "evaluate host (Suc n) (VArr a) env s = eval_obj (run host n) a env s"
    by (simp add: evaluate_special[OF assms] special_def)
  have 1: "eval_obj (run host n) a env s =
           andThen (obj_pairs (run host n) env (filter isArray (tl (arr_of s a))) [] s)
             (\<lambda>obj s1. Done (VObj (length (objs s1))) (s1\<lparr>objs := objs s1 @ [obj]\<rparr>))"
    by (simp add: eval_obj_def new_obj_def obj_pairs_filter[symmetric])
  have 2: "(\<forall>p \<in> set (tl (arr_of s a)). \<not> isArray p)
            \<longrightarrow> eval_obj (run host n) a env s =
                  Done (VObj (length (objs s))) (s\<lparr>objs := objs s @ [[]]\<rparr>)"
    by (simp add: eval_obj_def new_obj_def obj_pairs_none andThen_def)
  show ?thesis using e 1 2 by simp
qed

theorem obj_skips_non_lists_witness:
  "evaluate no_host 2 (VArr 0) 1 store_obj
     = Done (VObj 0) (store_obj\<lparr>objs := [[(KName ''a'', VNum 1)]]\<rparr>)"
proof -
  have h1: "nth_val (arr_of store_obj 0) 0 = VStr ''obj''" by code_simp
  have h2: "\<not> is_macro store_obj 1 ''obj''" by code_simp
  have f: "filter isArray (tl (arr_of store_obj 0)) = [VArr 1]" by code_simp
  have r: "andThen (obj_pairs (run no_host (Suc 0)) 1 [VArr 1] [] store_obj)
             (\<lambda>obj s1. Done (VObj (length (objs s1))) (s1\<lparr>objs := objs s1 @ [obj]\<rparr>))
           = Done (VObj 0) (store_obj\<lparr>objs := [[(KName ''a'', VNum 1)]]\<rparr>)" by code_simp
  from obj_skips_non_lists[OF h1 h2, of no_host "Suc 0", THEN conjunct1] f r
  show ?thesis by (simp add: numeral_2_eq_2)
qed

subsection \<open>The def form\<close>

lemma env_of_set_vars:
  "env_of (set_vars g ps s) e =
     (if e = g \<and> g < length (envs s) then (env_of s g)\<lparr>vars := ps\<rparr> else env_of s e)"
  by (auto simp: env_of_def set_vars_def)

lemma env_of_name_function [simp]: "env_of (name_function v w s) e = env_of s e"
  by (cases v) (simp_all add: name_function_def env_of_def set_fun_def)

lemma envs_name_function [simp]: "envs (name_function v w s) = envs s"
  by (cases v) (simp_all add: name_function_def set_fun_def)

lemma def_scope_name_function [simp]: "def_scope (name_function v w s) env = def_scope s env"
  by (simp add: def_scope_def)

lemma own_update [simp]: "own (AList.update k v ps) k = Some v"
  by (simp add: own_def update_Some_unfold)

lemma def_symbol:
  assumes "nth_val (arr_of s a) 0 = VStr ''def''"
    and "\<not> is_macro s env ''def''"
    and "nth_val (arr_of s a) 1 = VStr name"
    and "evaluate host n (nth_val (arr_of s a) 2) env s = Done v s1"
    and "def_scope s1 env < length (envs s1)"
    and "str_key name \<notin> {KName ''parent'', KName ''global'', KName ''__proto__''}"
  shows "evaluate host (Suc n) (VArr a) env s =
           Done v (set_vars (def_scope s1 env)
                     (AList.update (str_key name) v (vars (env_of s1 (def_scope s1 env))))
                     (name_function v (VStr name) s1))"
  using assms(3-6)
  by (simp add: evaluate_special[OF assms(1,2)] special_def eval_def_def run_Evaluate andThen_def Let_def)

lemma def_member:
  assumes "nth_val (arr_of s a) 0 = VStr ''def''"
    and "\<not> is_macro s env ''def''"
    and "nth_val (arr_of s a) 1 = VArr t"
  shows "evaluate host (Suc n) (VArr a) env s =
           andThen (evaluate host n (if arr_of s t = [] then VNil else last (arr_of s t)) env
                      (s\<lparr>arrs := arrs s @ [butlast (arr_of s t)]\<rparr>))
             (\<lambda>key s3.
                evaluate host n (VArr (length (arrs s))) env
                  (set_arr (length (arrs s))
                     (arr_of (s3\<lparr>arrs := arrs s3 @ [[VStr ''def'', key, nth_val (arr_of s a) 2]]\<rparr>)
                        (length (arrs s)) @ [VArr (length (arrs s3))])
                     (s3\<lparr>arrs := arrs s3 @ [[VStr ''def'', key, nth_val (arr_of s a) 2]]\<rparr>)))"
  using assms(3)
  by (simp add: evaluate_special[OF assms(1,2)] special_def eval_def_def run_Evaluate Let_def
      new_arr_def set_arr_def arr_of_def)

lemma get_setter:
  assumes "nth_val (arr_of s a) 0 = VStr ''get''"
    and "\<not> is_macro s env ''get''"
    and "arr_of s a = [VStr ''get'', base, VArr d]"
    and "evaluate host n base env s = Done target s1"
    and "typeof_object target"
    and "arr_of s1 d = [VStr ''def'', key, value]"
    and "to_key key = Some k"
  shows "evaluate host (Suc n) (VArr a) env s =
           andThen (evaluate host n value env s1) (\<lambda>x s2. js_set s2 target k x)"
  using assms(3-7)
  by (simp add: evaluate_special[OF assms(1,2)] special_def eval_get_def run_Evaluate andThen_def
      nth_val_def)


lemma arr_of_append:
  "r < length (arrs s) \<Longrightarrow> arr_of (s\<lparr>arrs := arrs s @ [xs]\<rparr>) r = arr_of s r"
  by (simp add: arr_of_def nth_append)

lemma arr_of_set_arr:
  "arr_of (set_arr r xs s) b = (if b = r \<and> r < length (arrs s) then xs else arr_of s b)"
  by (auto simp: arr_of_def set_arr_def)

text \<open>
  C2. For a \<^verbatim>\<open>['def', target, value]\<close> form (that no macro named \<open>def\<close> rewrites),
  evaluated in the scope \<open>env\<close>. When the target is a plain symbol and \<open>env\<close> has a
  global handle \<open>g\<close>, the evaluated value is bound under the symbol in \<open>g\<close>; every
  other scope keeps its bindings, so the current local scope \<open>env\<close> does whenever it
  is not \<open>g\<close> itself. When \<open>env\<close> has no global handle, the value is bound in
  \<open>env\<close>. In both cases no object and no list changes. When the target is the member
  access \<^verbatim>\<open>['get', base, member]\<close>, the form is rewritten and the object that the base
  evaluates to is mutated instead: it gets the value under the member key, and no scope
  changes. The symbol is any name but \<open>parent\<close>, \<open>global\<close> and \<^verbatim>\<open>__proto__\<close>,
  which an environment object has as properties of its own. The hypotheses on the stores
  say that the nested evaluations leave the two fresh lists of the rewrite as they are.
\<close>

theorem def_target:
  assumes "nth_val (arr_of s a) 0 = VStr ''def''"
    and "\<not> is_macro s env ''def''"
  shows "(nth_val (arr_of s a) 1 = VStr name
          \<and> evaluate host n (nth_val (arr_of s a) 2) env s = Done v s1
          \<and> global (env_of s1 env) = Some g \<and> g < length (envs s1)
          \<and> str_key name \<notin> {KName ''parent'', KName ''global'', KName ''__proto__''}
          \<longrightarrow> (\<exists>s2. evaluate host (Suc n) (VArr a) env s = Done v s2
                    \<and> own (vars (env_of s2 g)) (str_key name) = Some v
                    \<and> (\<forall>e. e \<noteq> g \<longrightarrow> env_of s2 e = env_of s1 e)
                    \<and> objs s2 = objs s1 \<and> arrs s2 = arrs s1))
       \<and> (nth_val (arr_of s a) 1 = VStr name
          \<and> evaluate host n (nth_val (arr_of s a) 2) env s = Done v s1
          \<and> global (env_of s1 env) = None \<and> env < length (envs s1)
          \<and> str_key name \<notin> {KName ''parent'', KName ''global'', KName ''__proto__''}
          \<longrightarrow> (\<exists>s2. evaluate host (Suc n) (VArr a) env s = Done v s2
                    \<and> own (vars (env_of s2 env)) (str_key name) = Some v
                    \<and> (\<forall>e. e \<noteq> env \<longrightarrow> env_of s2 e = env_of s1 e)
                    \<and> objs s2 = objs s1 \<and> arrs s2 = arrs s1))
       \<and> (nth_val (arr_of s a) 1 = VArr t \<and> arr_of s t = [VStr ''get'', base, m]
          \<and> evaluate host (Suc n) m env (s\<lparr>arrs := arrs s @ [[VStr ''get'', base]]\<rparr>) = Done key s3
          \<and> length (arrs s) < length (arrs s3)
          \<and> arr_of s3 (length (arrs s)) = [VStr ''get'', base]
          \<and> s5 = set_arr (length (arrs s)) [VStr ''get'', base, VArr (length (arrs s3))]
                   (s3\<lparr>arrs := arrs s3 @ [[VStr ''def'', key, nth_val (arr_of s a) 2]]\<rparr>)
          \<and> \<not> is_macro s5 env ''get''
          \<and> evaluate host n base env s5 = Done (VObj ob) s6
          \<and> arr_of s6 (length (arrs s3)) = [VStr ''def'', key, nth_val (arr_of s a) 2]
          \<and> evaluate host n (nth_val (arr_of s a) 2) env s6 = Done w s7
          \<and> to_key key = Some k \<and> k \<noteq> KName ''__proto__'' \<and> ob < length (objs s7)
          \<longrightarrow> (\<exists>s8. evaluate host (Suc (Suc n)) (VArr a) env s = Done w s8
                    \<and> own (obj_of s8 ob) k = Some w
                    \<and> envs s8 = envs s7))"
proof -
  have bound: "\<exists>s2. evaluate host (Suc n) (VArr a) env s = Done v s2
           \<and> own (vars (env_of s2 d)) (str_key name) = Some v
           \<and> (\<forall>e. e \<noteq> d \<longrightarrow> env_of s2 e = env_of s1 e)
           \<and> objs s2 = objs s1 \<and> arrs s2 = arrs s1"
    if tg: "nth_val (arr_of s a) 1 = VStr name"
      and ev: "evaluate host n (nth_val (arr_of s a) 2) env s = Done v s1"
      and d: "def_scope s1 env = d" "d < length (envs s1)"
      and nm: "str_key name \<notin> {KName ''parent'', KName ''global'', KName ''__proto__''}"
    for d
  proof -
    let ?s2 = "set_vars d (AList.update (str_key name) v (vars (env_of s1 d)))
                 (name_function v (VStr name) s1)"
    have e: "evaluate host (Suc n) (VArr a) env s = Done v ?s2"
      using def_symbol[OF assms tg ev _ nm] d by simp
    have 1: "own (vars (env_of ?s2 d)) (str_key name) = Some v"
      using d(2) by (simp add: env_of_set_vars)
    have 2: "\<forall>e. e \<noteq> d \<longrightarrow> env_of ?s2 e = env_of s1 e"
      by (simp add: env_of_set_vars)
    have 3: "objs ?s2 = objs s1 \<and> arrs ?s2 = arrs s1"
      by (cases v) (simp_all add: set_vars_def name_function_def set_fun_def)
    show ?thesis using e 1 2 3 by blast
  qed
  have member: "\<exists>s8. evaluate host (Suc (Suc n)) (VArr a) env s = Done w s8
           \<and> own (obj_of s8 ob) k = Some w \<and> envs s8 = envs s7"
    if h: "nth_val (arr_of s a) 1 = VArr t \<and> arr_of s t = [VStr ''get'', base, m]
          \<and> evaluate host (Suc n) m env (s\<lparr>arrs := arrs s @ [[VStr ''get'', base]]\<rparr>) = Done key s3
          \<and> length (arrs s) < length (arrs s3)
          \<and> arr_of s3 (length (arrs s)) = [VStr ''get'', base]
          \<and> s5 = set_arr (length (arrs s)) [VStr ''get'', base, VArr (length (arrs s3))]
                   (s3\<lparr>arrs := arrs s3 @ [[VStr ''def'', key, nth_val (arr_of s a) 2]]\<rparr>)
          \<and> \<not> is_macro s5 env ''get''
          \<and> evaluate host n base env s5 = Done (VObj ob) s6
          \<and> arr_of s6 (length (arrs s3)) = [VStr ''def'', key, nth_val (arr_of s a) 2]
          \<and> evaluate host n (nth_val (arr_of s a) 2) env s6 = Done w s7
          \<and> to_key key = Some k \<and> k \<noteq> KName ''__proto__'' \<and> ob < length (objs s7)"
  proof -
    let ?r = "length (arrs s)"
    let ?rhs = "nth_val (arr_of s a) 2"
    let ?s4 = "s3\<lparr>arrs := arrs s3 @ [[VStr ''def'', key, ?rhs]]\<rparr>"
    from h have t: "nth_val (arr_of s a) 1 = VArr t" and xs: "arr_of s t = [VStr ''get'', base, m]"
      and em: "evaluate host (Suc n) m env (s\<lparr>arrs := arrs s @ [[VStr ''get'', base]]\<rparr>) = Done key s3"
      and lt: "?r < length (arrs s3)" and copy: "arr_of s3 ?r = [VStr ''get'', base]"
      and s5: "s5 = set_arr ?r [VStr ''get'', base, VArr (length (arrs s3))] ?s4"
      and nm: "\<not> is_macro s5 env ''get''"
      and eb: "evaluate host n base env s5 = Done (VObj ob) s6"
      and setter: "arr_of s6 (length (arrs s3)) = [VStr ''def'', key, ?rhs]"
      and ev: "evaluate host n ?rhs env s6 = Done w s7"
      and k: "to_key key = Some k" "k \<noteq> KName ''__proto__''" "ob < length (objs s7)"
      by blast+
    have r4: "arr_of ?s4 ?r = [VStr ''get'', base]"
      using lt copy by (simp add: arr_of_append)
    have step1: "evaluate host (Suc (Suc n)) (VArr a) env s = evaluate host (Suc n) (VArr ?r) env s5"
      using def_member[OF assms t, of host "Suc n"] xs em r4 s5 by (simp add: andThen_def)
    have a5: "arr_of s5 ?r = [VStr ''get'', base, VArr (length (arrs s3))]"
      using lt by (simp add: s5 arr_of_set_arr)
    have hd5: "nth_val (arr_of s5 ?r) 0 = VStr ''get''"
      by (simp add: a5 nth_val_def)
    have step2: "evaluate host (Suc n) (VArr ?r) env s5 =
                   andThen (evaluate host n ?rhs env s6) (\<lambda>x s7. js_set s7 (VObj ob) k x)"
      by (rule get_setter[OF hd5 nm a5 eb _ setter k(1)]) simp
    let ?s8 = "set_obj ob (AList.update k w (obj_of s7 ob)) s7"
    have e: "evaluate host (Suc (Suc n)) (VArr a) env s = Done w ?s8"
      using step1 step2 ev k by (simp add: andThen_def)
    have 1: "own (obj_of ?s8 ob) k = Some w"
      using k by (simp add: obj_of_def set_obj_def)
    have 2: "envs ?s8 = envs s7" by (simp add: set_obj_def)
    show ?thesis using e 1 2 by blast
  qed
  show ?thesis
  proof (intro conjI impI)
    assume h: "nth_val (arr_of s a) 1 = VStr name
          \<and> evaluate host n (nth_val (arr_of s a) 2) env s = Done v s1
          \<and> global (env_of s1 env) = Some g \<and> g < length (envs s1)
          \<and> str_key name \<notin> {KName ''parent'', KName ''global'', KName ''__proto__''}"
    then have "def_scope s1 env = g" by (simp add: def_scope_def)
    with h show "\<exists>s2. evaluate host (Suc n) (VArr a) env s = Done v s2
           \<and> own (vars (env_of s2 g)) (str_key name) = Some v
           \<and> (\<forall>e. e \<noteq> g \<longrightarrow> env_of s2 e = env_of s1 e)
           \<and> objs s2 = objs s1 \<and> arrs s2 = arrs s1"
      using bound[of g] by blast
  next
    assume h: "nth_val (arr_of s a) 1 = VStr name
          \<and> evaluate host n (nth_val (arr_of s a) 2) env s = Done v s1
          \<and> global (env_of s1 env) = None \<and> env < length (envs s1)
          \<and> str_key name \<notin> {KName ''parent'', KName ''global'', KName ''__proto__''}"
    then have "def_scope s1 env = env" by (simp add: def_scope_def)
    with h show "\<exists>s2. evaluate host (Suc n) (VArr a) env s = Done v s2
           \<and> own (vars (env_of s2 env)) (str_key name) = Some v
           \<and> (\<forall>e. e \<noteq> env \<longrightarrow> env_of s2 e = env_of s1 e)
           \<and> objs s2 = objs s1 \<and> arrs s2 = arrs s1"
      using bound[of env] by blast
  next
    assume "nth_val (arr_of s a) 1 = VArr t \<and> arr_of s t = [VStr ''get'', base, m]
          \<and> evaluate host (Suc n) m env (s\<lparr>arrs := arrs s @ [[VStr ''get'', base]]\<rparr>) = Done key s3
          \<and> length (arrs s) < length (arrs s3)
          \<and> arr_of s3 (length (arrs s)) = [VStr ''get'', base]
          \<and> s5 = set_arr (length (arrs s)) [VStr ''get'', base, VArr (length (arrs s3))]
                   (s3\<lparr>arrs := arrs s3 @ [[VStr ''def'', key, nth_val (arr_of s a) 2]]\<rparr>)
          \<and> \<not> is_macro s5 env ''get''
          \<and> evaluate host n base env s5 = Done (VObj ob) s6
          \<and> arr_of s6 (length (arrs s3)) = [VStr ''def'', key, nth_val (arr_of s a) 2]
          \<and> evaluate host n (nth_val (arr_of s a) 2) env s6 = Done w s7
          \<and> to_key key = Some k \<and> k \<noteq> KName ''__proto__'' \<and> ob < length (objs s7)"
    then show "\<exists>s8. evaluate host (Suc (Suc n)) (VArr a) env s = Done w s8
           \<and> own (obj_of s8 ob) k = Some w \<and> envs s8 = envs s7"
      by (rule member)
  qed
qed

text \<open>
  In \<open>store_def\<close>: \<^verbatim>\<open>['def', 'x', 5]\<close> evaluated in the local scope \<open>3\<close> binds
  \<open>x\<close> in the user global \<open>1\<close>, and the scopes \<open>2\<close> and \<open>3\<close> stay empty;
  evaluated in the user global, which has no global handle, it binds \<open>x\<close> there; and
  \<^verbatim>\<open>a.b = 'hi'\<close> puts \<open>b\<close> into the object.
\<close>

theorem def_target_witness:
  "(\<exists>s2. evaluate no_host 2 (VArr 0) 3 store_def = Done (VNum 5) s2
         \<and> own (vars (env_of s2 1)) (str_key ''x'') = Some (VNum 5)
         \<and> (\<forall>e. e \<noteq> 1 \<longrightarrow> env_of s2 e = env_of store_def e)
         \<and> objs s2 = objs store_def \<and> arrs s2 = arrs store_def)
   \<and> (\<exists>s2. evaluate no_host 2 (VArr 0) 1 store_def = Done (VNum 5) s2
         \<and> own (vars (env_of s2 1)) (str_key ''x'') = Some (VNum 5)
         \<and> (\<forall>e. e \<noteq> 1 \<longrightarrow> env_of s2 e = env_of store_def e)
         \<and> objs s2 = objs store_def \<and> arrs s2 = arrs store_def)
   \<and> (\<exists>s8. evaluate no_host 3 (VArr 1) 1 store_def = Done (VStr ''hi'') s8
         \<and> own (obj_of s8 0) (KName ''b'') = Some (VStr ''hi'')
         \<and> envs s8 = envs store_def)"
proof -
  have h0: "nth_val (arr_of store_def 0) 0 = VStr ''def''" by code_simp
  have m0: "\<not> is_macro store_def 3 ''def''" by code_simp
  have c0: "nth_val (arr_of store_def 0) 1 = VStr ''x''
          \<and> evaluate no_host (Suc 0) (nth_val (arr_of store_def 0) 2) 3 store_def = Done (VNum 5) store_def
          \<and> global (env_of store_def 3) = Some 1 \<and> 1 < length (envs store_def)
          \<and> str_key ''x'' \<notin> {KName ''parent'', KName ''global'', KName ''__proto__''}"
    by code_simp
  have p0: "\<exists>s2. evaluate no_host (Suc (Suc 0)) (VArr 0) 3 store_def = Done (VNum 5) s2
         \<and> own (vars (env_of s2 1)) (str_key ''x'') = Some (VNum 5)
         \<and> (\<forall>e. e \<noteq> 1 \<longrightarrow> env_of s2 e = env_of store_def e)
         \<and> objs s2 = objs store_def \<and> arrs s2 = arrs store_def"
    by (rule def_target[OF h0 m0, THEN conjunct1, rule_format]) (rule c0)
  have m1: "\<not> is_macro store_def 1 ''def''" by code_simp
  have g0: "nth_val (arr_of store_def 0) 1 = VStr ''x''
          \<and> evaluate no_host (Suc 0) (nth_val (arr_of store_def 0) 2) 1 store_def = Done (VNum 5) store_def
          \<and> global (env_of store_def 1) = None \<and> 1 < length (envs store_def)
          \<and> str_key ''x'' \<notin> {KName ''parent'', KName ''global'', KName ''__proto__''}"
    by code_simp
  have q0: "\<exists>s2. evaluate no_host (Suc (Suc 0)) (VArr 0) 1 store_def = Done (VNum 5) s2
         \<and> own (vars (env_of s2 1)) (str_key ''x'') = Some (VNum 5)
         \<and> (\<forall>e. e \<noteq> 1 \<longrightarrow> env_of s2 e = env_of store_def e)
         \<and> objs s2 = objs store_def \<and> arrs s2 = arrs store_def"
    by (rule def_target[OF h0 m1, THEN conjunct2, THEN conjunct1, rule_format]) (rule g0)
  let ?s3 = "store_def\<lparr>arrs := arrs store_def @ [[VStr ''get'', VStr ''a'']]\<rparr>"
  let ?s5 = "set_arr (length (arrs store_def)) [VStr ''get'', VStr ''a'', VArr (length (arrs ?s3))]
               (?s3\<lparr>arrs := arrs ?s3 @ [[VStr ''def'', VStr ''b'', nth_val (arr_of store_def 1) 2]]\<rparr>)"
  have h1: "nth_val (arr_of store_def 1) 0 = VStr ''def''" by code_simp
  have c1: "nth_val (arr_of store_def 1) 1 = VArr 2
          \<and> arr_of store_def 2 = [VStr ''get'', VStr ''a'', VArr 3]
          \<and> evaluate no_host (Suc (Suc 0)) (VArr 3) 1
               (store_def\<lparr>arrs := arrs store_def @ [[VStr ''get'', VStr ''a'']]\<rparr>) = Done (VStr ''b'') ?s3
          \<and> length (arrs store_def) < length (arrs ?s3)
          \<and> arr_of ?s3 (length (arrs store_def)) = [VStr ''get'', VStr ''a'']
          \<and> ?s5 = set_arr (length (arrs store_def)) [VStr ''get'', VStr ''a'', VArr (length (arrs ?s3))]
                   (?s3\<lparr>arrs := arrs ?s3 @ [[VStr ''def'', VStr ''b'', nth_val (arr_of store_def 1) 2]]\<rparr>)
          \<and> \<not> is_macro ?s5 1 ''get''
          \<and> evaluate no_host (Suc 0) (VStr ''a'') 1 ?s5 = Done (VObj 0) ?s5
          \<and> arr_of ?s5 (length (arrs ?s3)) = [VStr ''def'', VStr ''b'', nth_val (arr_of store_def 1) 2]
          \<and> evaluate no_host (Suc 0) (nth_val (arr_of store_def 1) 2) 1 ?s5 = Done (VStr ''hi'') ?s5
          \<and> to_key (VStr ''b'') = Some (KName ''b'') \<and> KName ''b'' \<noteq> KName ''__proto__''
          \<and> 0 < length (objs ?s5)"
    by code_simp
  have p1: "\<exists>s8. evaluate no_host (Suc (Suc (Suc 0))) (VArr 1) 1 store_def = Done (VStr ''hi'') s8
         \<and> own (obj_of s8 0) (KName ''b'') = Some (VStr ''hi'')
         \<and> envs s8 = envs ?s5"
    by (rule def_target[OF h1 m1, THEN conjunct2, THEN conjunct2, rule_format]) (rule c1)
  have e5: "envs ?s5 = envs store_def" by code_simp
  have n2: "Suc (Suc 0) = 2" and n3: "Suc (Suc (Suc 0)) = 3" by simp_all
  show ?thesis using p0[unfolded n2] q0[unfolded n2] p1[unfolded e5 n3] by (intro conjI)
qed

subsection \<open>Scopes for function calls\<close>

lemma create_fst [simp]: "fst (create env s) = length (envs s)"
  by (simp add: create_def Let_def)

lemma create_arrs [simp]: "arr_of (snd (create env s)) d = arr_of s d"
  by (simp add: create_def Let_def arr_of_def)

lemma create_new [simp]:
  "vars (env_of (snd (create env s)) (length (envs s))) = []"
  "parent (env_of (snd (create env s)) (length (envs s))) = Some env"
  "length (envs (snd (create env s))) = Suc (length (envs s))"
  by (simp_all add: create_def Let_def env_of_def)

lemma create_old [simp]:
  "b < length (envs s) \<Longrightarrow> env_of (snd (create env s)) b = env_of s b"
  by (simp add: create_def Let_def env_of_def nth_append)

lemma create_rest [simp]:
  "arrs (snd (create env s)) = arrs s" "objs (snd (create env s)) = objs s"
  "funs (snd (create env s)) = funs s"
  by (simp_all add: create_def Let_def)

lemma env_put_symbol:
  assumes "b < length (envs s)"
    and "str_key name \<notin> {KName ''parent'', KName ''global'', KName ''__proto__''}"
  shows "env_put b (VStr name) x s =
           Done () (set_vars b (AList.update (str_key name) x (vars (env_of s b))) s)"
  using assms by (simp add: env_put_def andThen_def)

lemma bind_one_symbol:
  assumes "arr_of s d = [VStr name]" and "name \<noteq> ''&''"
    and "str_key name \<notin> {KName ''parent'', KName ''global'', KName ''__proto__''}"
  shows "bindFunctionScope rc env (VArr d) [x] s =
           Done (length (envs s))
             (set_vars (length (envs s)) [(str_key name, x)] (snd (create env s)))"
proof -
  let ?b = "length (envs s)"
  let ?s1 = "snd (create env s)"
  have a: "arr_of ?s1 d = [VStr name]" using assms(1) by simp
  have p: "env_put ?b (VStr name) x ?s1 = Done () (set_vars ?b [(str_key name, x)] ?s1)"
    using env_put_symbol[of ?b ?s1 name x] assms(3) by simp
  have g: "bind_arg rc d [x] ?b 0 ?s1 = Done () (set_vars ?b [(str_key name, x)] ?s1)"
    using assms(2) p by (simp add: bind_arg_def assms(1) nth_val_def Let_def)
  show ?thesis
    using g by (simp add: bindFunctionScope_def split_beta assms(1) andThen_def)
qed

subsection \<open>try\<close>

text \<open>
  A single argument definition that is neither a symbol nor a list: no scope is returned.
\<close>

lemma bind_one_bad:
  assumes "arr_of s d = [x]" and "\<not> typeof_string x" and "\<not> isArray x"
  shows "bindFunctionScope rc env (VArr d) given s = Fail BadArgDef (snd (create env s))"
proof -
  let ?b = "length (envs s)"
  let ?s1 = "snd (create env s)"
  have n: "x \<noteq> VStr ''&''" using assms(2) by auto
  have g: "bind_arg rc d given ?b 0 ?s1 = Fail BadArgDef ?s1"
    using assms n by (simp add: bind_arg_def nth_val_def Let_def)
  show ?thesis
    using g by (simp add: bindFunctionScope_def split_beta assms(1) andThen_def)
qed

text \<open>
  C6, as stated, fails. The handler \<^verbatim>\<open>['handler', 'e', 'e']\<close> is not shaped
  \<^verbatim>\<open>['catch', argName, body]\<close>, yet the error that the body throws is not swallowed
  with nil as the result; it is bound to \<open>e\<close> and the handler body returns it. The
  handler \<^verbatim>\<open>[]\<close> is not of that shape either, and the form does not return nil: it
  fails with BadArgDef.
\<close>

theorem try_any_list_handler:
  "nth_val (arr_of store_try 1) 0 \<noteq> VStr ''catch''
   \<and> thrown (evaluate no_host 2 (nth_val (arr_of store_try 0) 1) 1 store_try) = Some (UndefinedSymbol ''nope'')
   \<and> returned (evaluate no_host 3 (VArr 0) 1 store_try) = Some (VErr (UndefinedSymbol ''nope''))
   \<and> nth_val (arr_of store_try 6) 2 = VArr 7 \<and> arr_of store_try 7 = []
   \<and> returned (evaluate no_host 3 (VArr 6) 1 store_try) = None
   \<and> thrown (evaluate no_host 3 (VArr 6) 1 store_try) = Some BadArgDef"
  by code_simp

text \<open>
  C6, amended. For a \<^verbatim>\<open>['try', body, handler]\<close> form (that no macro named \<open>try\<close>
  rewrites): evaluating the body without error returns its value. On an error, when the
  handler is not a list, the error is swallowed and the form returns nil. When the handler
  is a list, whatever its head, its element 1 is the only argument definition and the
  error value the only given argument of \<^verbatim>\<open>bindFunctionScope\<close> on \<open>env\<close>, and
  element 2 is evaluated in the scope that this returns. So when element 1 is a symbol
  \<open>argName\<close> (other than \<^verbatim>\<open>'&'\<close>, and other than \<open>parent\<close>, \<open>global\<close> and
  \<^verbatim>\<open>__proto__\<close>, which are properties of the scope object itself), the error value is
  bound to \<open>argName\<close> in a fresh child scope of \<open>env\<close> and element 2 is evaluated
  there; and when element 1 is neither a symbol nor a list, the form fails with BadArgDef.
\<close>

theorem try_form:
  assumes "nth_val (arr_of s a) 0 = VStr ''try''"
    and "\<not> is_macro s env ''try''"
  shows "(evaluate host n (nth_val (arr_of s a) 1) env s = Done v s1
            \<longrightarrow> evaluate host (Suc n) (VArr a) env s = Done v s1)
       \<and> (evaluate host n (nth_val (arr_of s a) 1) env s = Fail e s1
            \<and> \<not> isArray (nth_val (arr_of s1 a) 2)
            \<longrightarrow> evaluate host (Suc n) (VArr a) env s = Done VNil s1)
       \<and> (evaluate host n (nth_val (arr_of s a) 1) env s = Fail e s1
            \<and> nth_val (arr_of s1 a) 2 = VArr h
            \<longrightarrow> evaluate host (Suc n) (VArr a) env s =
                  andThen (bindFunctionScope (run host n) env (VArr (length (arrs s1))) [VErr e]
                             (s1\<lparr>arrs := arrs s1 @ [[nth_val (arr_of s1 h) 1]]\<rparr>))
                    (\<lambda>b s3. evaluate host n (nth_val (arr_of s1 h) 2) b s3))
       \<and> (evaluate host n (nth_val (arr_of s a) 1) env s = Fail e s1
            \<and> nth_val (arr_of s1 a) 2 = VArr h
            \<and> nth_val (arr_of s1 h) 1 = VStr argName \<and> argName \<noteq> ''&''
            \<and> str_key argName \<notin> {KName ''parent'', KName ''global'', KName ''__proto__''}
            \<longrightarrow> (\<exists>s4. evaluate host (Suc n) (VArr a) env s =
                         evaluate host n (nth_val (arr_of s1 h) 2) (length (envs s1)) s4
                    \<and> parent (env_of s4 (length (envs s1))) = Some env
                    \<and> vars (env_of s4 (length (envs s1))) = [(str_key argName, VErr e)]
                    \<and> (\<forall>b < length (envs s1). env_of s4 b = env_of s1 b)
                    \<and> arrs s4 = arrs s1 @ [[VStr argName]]
                    \<and> objs s4 = objs s1 \<and> funs s4 = funs s1))
       \<and> (evaluate host n (nth_val (arr_of s a) 1) env s = Fail e s1
            \<and> nth_val (arr_of s1 a) 2 = VArr h
            \<and> \<not> typeof_string (nth_val (arr_of s1 h) 1) \<and> \<not> isArray (nth_val (arr_of s1 h) 1)
            \<longrightarrow> (\<exists>s4. evaluate host (Suc n) (VArr a) env s = Fail BadArgDef s4))"
proof -
  have handler: "evaluate host (Suc n) (VArr a) env s =
          andThen (bindFunctionScope (run host n) env (VArr (length (arrs s1))) [VErr e]
                     (s1\<lparr>arrs := arrs s1 @ [[nth_val (arr_of s1 h) 1]]\<rparr>))
            (\<lambda>b s3. evaluate host n (nth_val (arr_of s1 h) 2) b s3)"
    if "evaluate host n (nth_val (arr_of s a) 1) env s = Fail e s1"
      and "nth_val (arr_of s1 a) 2 = VArr h" for h
    using that
    by (simp add: evaluate_special[OF assms] special_def eval_try_def run_Evaluate_fun new_arr_def
        Let_def)
  show ?thesis
  proof (intro conjI impI)
    assume "evaluate host n (nth_val (arr_of s a) 1) env s = Done v s1"
    then show "evaluate host (Suc n) (VArr a) env s = Done v s1"
      by (simp add: evaluate_special[OF assms] special_def eval_try_def run_Evaluate)
  next
    assume "evaluate host n (nth_val (arr_of s a) 1) env s = Fail e s1
              \<and> \<not> isArray (nth_val (arr_of s1 a) 2)"
    then show "evaluate host (Suc n) (VArr a) env s = Done VNil s1"
      by (simp add: evaluate_special[OF assms] special_def eval_try_def run_Evaluate)
  next
    assume "evaluate host n (nth_val (arr_of s a) 1) env s = Fail e s1
              \<and> nth_val (arr_of s1 a) 2 = VArr h"
    then show "evaluate host (Suc n) (VArr a) env s =
          andThen (bindFunctionScope (run host n) env (VArr (length (arrs s1))) [VErr e]
                     (s1\<lparr>arrs := arrs s1 @ [[nth_val (arr_of s1 h) 1]]\<rparr>))
            (\<lambda>b s3. evaluate host n (nth_val (arr_of s1 h) 2) b s3)"
      using handler by blast
  next
    assume h: "evaluate host n (nth_val (arr_of s a) 1) env s = Fail e s1
              \<and> nth_val (arr_of s1 a) 2 = VArr h
              \<and> nth_val (arr_of s1 h) 1 = VStr argName \<and> argName \<noteq> ''&''
              \<and> str_key argName \<notin> {KName ''parent'', KName ''global'', KName ''__proto__''}"
    let ?s2 = "s1\<lparr>arrs := arrs s1 @ [[VStr argName]]\<rparr>"
    let ?b = "length (envs s1)"
    let ?s4 = "set_vars ?b [(str_key argName, VErr e)] (snd (create env ?s2))"
    have d: "arr_of ?s2 (length (arrs s1)) = [VStr argName]"
      by (simp add: arr_of_def)
    have b: "bindFunctionScope (run host n) env (VArr (length (arrs s1))) [VErr e] ?s2 = Done ?b ?s4"
      using bind_one_symbol[OF d, of "run host n" env "VErr e"] h by simp
    have e: "evaluate host (Suc n) (VArr a) env s = evaluate host n (nth_val (arr_of s1 h) 2) ?b ?s4"
      using handler[of h] h b by (simp add: andThen_def)
    have p: "parent (env_of ?s4 ?b) = Some env \<and> vars (env_of ?s4 ?b) = [(str_key argName, VErr e)]
             \<and> (\<forall>b < ?b. env_of ?s4 b = env_of s1 b)
             \<and> arrs ?s4 = arrs s1 @ [[VStr argName]] \<and> objs ?s4 = objs s1 \<and> funs ?s4 = funs s1"
      by (simp add: set_vars_def create_def env_of_def Let_def nth_append)
    show "\<exists>s4. evaluate host (Suc n) (VArr a) env s =
                   evaluate host n (nth_val (arr_of s1 h) 2) (length (envs s1)) s4
              \<and> parent (env_of s4 (length (envs s1))) = Some env
              \<and> vars (env_of s4 (length (envs s1))) = [(str_key argName, VErr e)]
              \<and> (\<forall>b < length (envs s1). env_of s4 b = env_of s1 b)
              \<and> arrs s4 = arrs s1 @ [[VStr argName]]
              \<and> objs s4 = objs s1 \<and> funs s4 = funs s1"
      using e p by blast
  next
    assume h: "evaluate host n (nth_val (arr_of s a) 1) env s = Fail e s1
              \<and> nth_val (arr_of s1 a) 2 = VArr h
              \<and> \<not> typeof_string (nth_val (arr_of s1 h) 1) \<and> \<not> isArray (nth_val (arr_of s1 h) 1)"
    let ?x = "nth_val (arr_of s1 h) 1"
    let ?s2 = "s1\<lparr>arrs := arrs s1 @ [[?x]]\<rparr>"
    have d: "arr_of ?s2 (length (arrs s1)) = [?x]"
      by (simp add: arr_of_def)
    have b: "bindFunctionScope (run host n) env (VArr (length (arrs s1))) [VErr e] ?s2
               = Fail BadArgDef (snd (create env ?s2))"
      using bind_one_bad[OF d, of "run host n" env "[VErr e]"] h by simp
    have "evaluate host (Suc n) (VArr a) env s = Fail BadArgDef (snd (create env ?s2))"
      using handler[of h] h b by (simp add: andThen_def)
    then show "\<exists>s4. evaluate host (Suc n) (VArr a) env s = Fail BadArgDef s4" by blast
  qed
qed

text \<open>
  In \<open>store_try\<close>: \<^verbatim>\<open>['try', 7, ['catch', 'e', 'e']]\<close> returns \<open>7\<close>; over the
  unbound symbol \<open>nope\<close>, the handler \<open>5\<close> gives nil, the handler
  \<^verbatim>\<open>['catch', ['...', 'e'], 'e']\<close> returns a list that holds the error, the handler
  \<^verbatim>\<open>['catch', 'e', 'e']\<close> evaluates \<open>e\<close> in a scope that binds it to the error, and
  the handler \<^verbatim>\<open>[]\<close> fails with BadArgDef.
\<close>

theorem try_form_witness:
  "evaluate no_host 3 (VArr 5) 1 store_try = Done (VNum 7) store_try
   \<and> evaluate no_host 3 (VArr 2) 1 store_try = Done VNil store_try
   \<and> returned (evaluate no_host 4 (VArr 8) 1 store_try) = Some (VArr 12)
   \<and> array_after (evaluate no_host 4 (VArr 8) 1 store_try) 12 = [VErr (UndefinedSymbol ''nope'')]
   \<and> (\<exists>s4. evaluate no_host 3 (VArr 3) 1 store_try = evaluate no_host 2 (VStr ''e'') 2 s4
          \<and> parent (env_of s4 2) = Some 1
          \<and> vars (env_of s4 2) = [(KName ''e'', VErr (UndefinedSymbol ''nope''))])
   \<and> (\<exists>s4. evaluate no_host 3 (VArr 6) 1 store_try = Fail BadArgDef s4)"
proof -
  have m: "\<not> is_macro store_try 1 ''try''" by code_simp
  have h5: "nth_val (arr_of store_try 5) 0 = VStr ''try''" by code_simp
  have c5: "evaluate no_host (Suc (Suc 0)) (nth_val (arr_of store_try 5) 1) 1 store_try
              = Done (VNum 7) store_try" by code_simp
  have p5: "evaluate no_host (Suc (Suc (Suc 0))) (VArr 5) 1 store_try = Done (VNum 7) store_try"
    by (rule try_form[OF h5 m, THEN conjunct1, rule_format]) (rule c5)
  have h2: "nth_val (arr_of store_try 2) 0 = VStr ''try''" by code_simp
  have c2: "evaluate no_host (Suc (Suc 0)) (nth_val (arr_of store_try 2) 1) 1 store_try
              = Fail (UndefinedSymbol ''nope'') store_try
            \<and> \<not> isArray (nth_val (arr_of store_try 2) 2)" by code_simp
  have p2: "evaluate no_host (Suc (Suc (Suc 0))) (VArr 2) 1 store_try = Done VNil store_try"
    by (rule try_form[OF h2 m, THEN conjunct2, THEN conjunct1, rule_format]) (rule c2)
  have h8: "nth_val (arr_of store_try 8) 0 = VStr ''try''" by code_simp
  have c8: "evaluate no_host 3 (nth_val (arr_of store_try 8) 1) 1 store_try
              = Fail (UndefinedSymbol ''nope'') store_try
            \<and> nth_val (arr_of store_try 8) 2 = VArr 9" by code_simp
  let ?rhs = "andThen (bindFunctionScope (run no_host 3) 1 (VArr (length (arrs store_try)))
                         [VErr (UndefinedSymbol ''nope'')]
                         (store_try\<lparr>arrs := arrs store_try @ [[nth_val (arr_of store_try 9) 1]]\<rparr>))
                (\<lambda>b s3. evaluate no_host 3 (nth_val (arr_of store_try 9) 2) b s3)"
  have e8: "evaluate no_host (Suc 3) (VArr 8) 1 store_try = ?rhs"
    by (rule try_form[OF h8 m, THEN conjunct2, THEN conjunct2, THEN conjunct1, rule_format])
       (rule c8)
  have v8: "returned ?rhs = Some (VArr 12)
            \<and> array_after ?rhs 12 = [VErr (UndefinedSymbol ''nope'')]" by code_simp
  have n4: "Suc 3 = 4" by simp
  have p8: "returned (evaluate no_host 4 (VArr 8) 1 store_try) = Some (VArr 12)
            \<and> array_after (evaluate no_host 4 (VArr 8) 1 store_try) 12
                = [VErr (UndefinedSymbol ''nope'')]"
    unfolding e8[unfolded n4] using v8 .
  have h3: "nth_val (arr_of store_try 3) 0 = VStr ''try''" by code_simp
  have c3: "evaluate no_host (Suc (Suc 0)) (nth_val (arr_of store_try 3) 1) 1 store_try
              = Fail (UndefinedSymbol ''nope'') store_try
            \<and> nth_val (arr_of store_try 3) 2 = VArr 4
            \<and> nth_val (arr_of store_try 4) 1 = VStr ''e'' \<and> ''e'' \<noteq> ''&''
            \<and> str_key ''e'' \<notin> {KName ''parent'', KName ''global'', KName ''__proto__''}"
    by code_simp
  have p3: "\<exists>s4. evaluate no_host (Suc (Suc (Suc 0))) (VArr 3) 1 store_try =
                    evaluate no_host (Suc (Suc 0)) (nth_val (arr_of store_try 4) 2) (length (envs store_try)) s4
             \<and> parent (env_of s4 (length (envs store_try))) = Some 1
             \<and> vars (env_of s4 (length (envs store_try))) = [(str_key ''e'', VErr (UndefinedSymbol ''nope''))]
             \<and> (\<forall>b < length (envs store_try). env_of s4 b = env_of store_try b)
             \<and> arrs s4 = arrs store_try @ [[VStr ''e'']]
             \<and> objs s4 = objs store_try \<and> funs s4 = funs store_try"
    by (rule try_form[OF h3 m, THEN conjunct2, THEN conjunct2, THEN conjunct2, THEN conjunct1,
          rule_format]) (rule c3)
  have k: "nth_val (arr_of store_try 4) 2 = VStr ''e''" "length (envs store_try) = 2"
    "str_key ''e'' = KName ''e''" by code_simp+
  have n1: "Suc (Suc 0) = 2" and n2: "Suc (Suc (Suc 0)) = 3" by simp_all
  from p3[unfolded k, unfolded n2, unfolded n1] have p3': "\<exists>s4. evaluate no_host 3 (VArr 3) 1 store_try = evaluate no_host 2 (VStr ''e'') 2 s4
          \<and> parent (env_of s4 2) = Some 1
          \<and> vars (env_of s4 2) = [(KName ''e'', VErr (UndefinedSymbol ''nope''))]"
    by blast
  have h6: "nth_val (arr_of store_try 6) 0 = VStr ''try''" by code_simp
  have c6: "evaluate no_host (Suc (Suc 0)) (nth_val (arr_of store_try 6) 1) 1 store_try
              = Fail (UndefinedSymbol ''nope'') store_try
            \<and> nth_val (arr_of store_try 6) 2 = VArr 7
            \<and> \<not> typeof_string (nth_val (arr_of store_try 7) 1)
            \<and> \<not> isArray (nth_val (arr_of store_try 7) 1)" by code_simp
  have p6: "\<exists>s4. evaluate no_host (Suc (Suc (Suc 0))) (VArr 6) 1 store_try = Fail BadArgDef s4"
    by (rule try_form[OF h6 m, THEN conjunct2, THEN conjunct2, THEN conjunct2, THEN conjunct2,
          rule_format]) (rule c6)
  show ?thesis using p5[unfolded n2] p2[unfolded n2] p8 p3' p6[unfolded n2] by blast
qed

subsection \<open>Argument definitions\<close>

text \<open>
  \<^verbatim>\<open>bindFunctionScope\<close> on a list of argument definitions: a child scope of \<open>env\<close> is
  created, and \<open>bind_args\<close> runs \<open>bind_arg\<close> at each index in turn.
\<close>

lemma bindFunctionScope_array:
  "bindFunctionScope rc env (VArr a) given s =
     andThen (bind_args rc a given (length (envs s)) 0 (length (arr_of s a)) (snd (create env s)))
       (\<lambda>_ s2. Done (length (envs s)) s2)"
  by (simp add: bindFunctionScope_def split_beta)




subsection \<open>The rewrite of a member target\<close>

text \<open>
  C9, as stated, fails: in \<^verbatim>\<open>['def', ['get', ['`', [1]], 0], 2]\<close> the target is a
  member access whose base is a quoted list. Quoting returns the list of the syntax tree
  itself, the set writes into it, and after the evaluation the tree holds \<^verbatim>\<open>[2]\<close>
  where it held \<^verbatim>\<open>[1]\<close>.
\<close>

theorem def_member_writes_quoted_list:
  "arr_of store_quoted_target 3 = [VNum 1]
   \<and> returned (evaluate no_host 3 (VArr 0) 1 store_quoted_target) = Some (VNum 2)
   \<and> array_after (evaluate no_host 3 (VArr 0) 1 store_quoted_target) 3 = [VNum 2]"
  by code_simp

text \<open>
  C9, amended. Evaluating a \<^verbatim>\<open>['def', target, value]\<close> form whose target is a list
  rewrites it on fresh lists: the member key is evaluated in a store \<open>s2\<close> that has the
  copy \<open>r\<close> of the target as a new list and is unchanged otherwise, and the evaluation
  goes on with the list \<open>r\<close> in a store that differs from the one the key evaluation
  left only in \<open>r\<close> and in the new list \<^verbatim>\<open>['def', key, value]\<close>. The rewrite itself
  writes to no list, object, scope or function that existed before; the lists of the
  input tree change only through the nested evaluations.
\<close>

theorem def_rewrite_fresh:
  assumes "nth_val (arr_of s a) 0 = VStr ''def''"
    and "\<not> is_macro s env ''def''"
    and "nth_val (arr_of s a) 1 = VArr t"
  shows "let r = length (arrs s);
             member = (if arr_of s t = [] then VNil else last (arr_of s t));
             s2 = s\<lparr>arrs := arrs s @ [butlast (arr_of s t)]\<rparr>;
             rewritten = (\<lambda>key s3.
               set_arr r
                 (arr_of (s3\<lparr>arrs := arrs s3 @ [[VStr ''def'', key, nth_val (arr_of s a) 2]]\<rparr>) r
                    @ [VArr (length (arrs s3))])
                 (s3\<lparr>arrs := arrs s3 @ [[VStr ''def'', key, nth_val (arr_of s a) 2]]\<rparr>))
         in evaluate host (Suc n) (VArr a) env s =
              andThen (evaluate host n member env s2)
                (\<lambda>key s3. evaluate host n (VArr r) env (rewritten key s3))
          \<and> (\<forall>c < r. arr_of s2 c = arr_of s c)
          \<and> objs s2 = objs s \<and> envs s2 = envs s \<and> funs s2 = funs s
          \<and> (\<forall>key s3 c. c < length (arrs s3) \<and> c \<noteq> r \<longrightarrow> arr_of (rewritten key s3) c = arr_of s3 c)
          \<and> (\<forall>key s3. objs (rewritten key s3) = objs s3 \<and> envs (rewritten key s3) = envs s3
                       \<and> funs (rewritten key s3) = funs s3)"
proof -
  have f1: "\<forall>c < length (arrs s). arr_of (s\<lparr>arrs := arrs s @ [butlast (arr_of s t)]\<rparr>) c = arr_of s c"
    by (simp add: arr_of_append)
  have f2: "\<And>key s3 c xs ys. c < length (arrs s3) \<and> c \<noteq> length (arrs s)
              \<longrightarrow> arr_of (set_arr (length (arrs s)) xs (s3\<lparr>arrs := arrs s3 @ [ys]\<rparr>)) c = arr_of s3 c"
    by (simp add: arr_of_set_arr arr_of_append)
  have f3: "\<And>r xs ys s3. objs (set_arr r xs (s3\<lparr>arrs := arrs s3 @ [ys]\<rparr>)) = objs s3
              \<and> envs (set_arr r xs (s3\<lparr>arrs := arrs s3 @ [ys]\<rparr>)) = envs s3
              \<and> funs (set_arr r xs (s3\<lparr>arrs := arrs s3 @ [ys]\<rparr>)) = funs s3"
    by (simp add: set_arr_def)
  show ?thesis
    unfolding Let_def using def_member[OF assms, of host n] f1 f2 f3 by simp
qed

theorem def_rewrite_fresh_witness:
  "map (array_after (evaluate no_host 3 (VArr 1) 1 store_def)) [0, 1, 2, 3, 4] = arrs store_def
   \<and> returned (evaluate no_host 3 (VArr 1) 1 store_def) = Some (VStr ''hi'')"
proof -
  have h: "nth_val (arr_of store_def 1) 0 = VStr ''def''" by code_simp
  have m: "\<not> is_macro store_def 1 ''def''" by code_simp
  have t: "nth_val (arr_of store_def 1) 1 = VArr 2" by code_simp
  let ?rhs = "andThen (evaluate no_host 2
                 (if arr_of store_def 2 = [] then VNil else last (arr_of store_def 2)) 1
                 (store_def\<lparr>arrs := arrs store_def @ [butlast (arr_of store_def 2)]\<rparr>))
               (\<lambda>key s3. evaluate no_host 2 (VArr (length (arrs store_def))) 1
                  (set_arr (length (arrs store_def))
                     (arr_of (s3\<lparr>arrs := arrs s3 @ [[VStr ''def'', key, nth_val (arr_of store_def 1) 2]]\<rparr>)
                        (length (arrs store_def)) @ [VArr (length (arrs s3))])
                     (s3\<lparr>arrs := arrs s3 @ [[VStr ''def'', key, nth_val (arr_of store_def 1) 2]]\<rparr>)))"
  have e: "evaluate no_host (Suc 2) (VArr 1) 1 store_def = ?rhs"
    using def_rewrite_fresh[OF h m t, of no_host 2] unfolding Let_def by blast
  have v: "map (array_after ?rhs) [0, 1, 2, 3, 4] = arrs store_def
           \<and> returned ?rhs = Some (VStr ''hi'')" by code_simp
  have n3: "Suc 2 = 3" by simp
  show ?thesis unfolding e[unfolded n3] using v .
qed

section \<open>Properties of the parser\<close>

lemma next_eta: "(\<lambda>q us. parse_run k (NextExpression q us)) = nextExpression k"
  by (intro ext) (simp add: nextExpression_def)

lemma next_Nil: "nextExpression (Suc k) p [] = Parsed XNil []"
  by (simp add: nextExpression_def next_round_def)

lemma next_Cons:
  "nextExpression (Suc k) p (Token r v # ts) =
     thenParse (prefix_handler (nextExpression k) r v ts) (\<lambda>left ts2. operator_loop k p left ts2)"
  by (simp add: nextExpression_def next_round_def operator_loop_def next_eta)

lemma loop_Nil: "operator_loop (Suc k) p left [] = Parsed left []"
  by (simp add: operator_loop_def loop_round_def)

lemma loop_Cons:
  "operator_loop (Suc k) p left (Token r v # ts) =
     (if p < power_of r
      then thenParse (infix_handler (nextExpression k) r left ts)
             (\<lambda>left1 ts2. operator_loop k p left1 ts2)
      else Parsed left (Token r v # ts))"
  by (simp add: operator_loop_def loop_round_def next_eta)

lemma operand_prefix:
  "operand (Token r v) = Some x \<Longrightarrow> prefix_handler ne r v ts = Parsed x ts"
  by (cases r) (simp_all add: prefix_handler_def)

lemma binary_handler:
  "A \<in> set binary_rules \<Longrightarrow> infix_handler ne A left ts = binary ne (name_of A) (power_of A) left ts"
  by (auto simp: binary_rules_def infix_handler_def)

lemma binary_power: "A \<in> set binary_rules \<Longrightarrow> 0 < power_of A"
  by (auto simp: binary_rules_def)

text \<open>
  With enough steps for the five tokens, the operator of higher power takes the middle
  operand.
\<close>

lemma stronger_groups_first:
  assumes "A \<in> set binary_rules" and "B \<in> set binary_rules" and "power_of A < power_of B"
    and "operand ta = Some a" and "operand tb = Some b" and "operand tc = Some c"
  shows "nextExpression (Suc (Suc (Suc (Suc (Suc (Suc m)))))) 0 [ta, Token A va, tb, Token B vb, tc]
           = Parsed (XList [XStr (name_of A), a, XList [XStr (name_of B), b, c]]) []"
proof -
  obtain ra xa where ta: "ta = Token ra xa" by (cases ta)
  obtain rb xb where tb: "tb = Token rb xb" by (cases tb)
  obtain rc xc where tc: "tc = Token rc xc" by (cases tc)
  have pa: "\<And>ne ts. prefix_handler ne ra xa ts = Parsed a ts"
    using assms(4) ta by (simp add: operand_prefix)
  have pb: "\<And>ne ts. prefix_handler ne rb xb ts = Parsed b ts"
    using assms(5) tb by (simp add: operand_prefix)
  have pc: "\<And>ne ts. prefix_handler ne rc xc ts = Parsed c ts"
    using assms(6) tc by (simp add: operand_prefix)
  have c: "nextExpression (Suc (Suc m)) (power_of B) [tc] = Parsed c []"
    by (simp add: tc next_Cons pc thenParse_def loop_Nil)
  have bc: "operator_loop (Suc (Suc (Suc m))) (power_of A) b [Token B vb, tc]
              = Parsed (XList [XStr (name_of B), b, c]) []"
    using assms(3)
    by (simp add: loop_Cons binary_handler[OF assms(2)] binary_def c thenParse_def loop_Nil)
  have r: "nextExpression (Suc (Suc (Suc (Suc m)))) (power_of A) [tb, Token B vb, tc]
              = Parsed (XList [XStr (name_of B), b, c]) []"
    by (simp add: tb next_Cons pb thenParse_def bc[unfolded tb])
  have l: "operator_loop (Suc (Suc (Suc (Suc (Suc m))))) 0 a [Token A va, tb, Token B vb, tc]
              = Parsed (XList [XStr (name_of A), a, XList [XStr (name_of B), b, c]]) []"
    using binary_power[OF assms(1)]
    by (simp add: loop_Cons binary_handler[OF assms(1)] binary_def r thenParse_def loop_Nil)
  show ?thesis
    by (simp add: ta next_Cons pa thenParse_def l[unfolded ta])
qed

text \<open>
  C1. For binary operators \<open>A\<close> and \<open>B\<close> of \<^verbatim>\<open>rules.ts\<close> with the power of \<open>A\<close>
  below the power of \<open>B\<close>, and operands \<open>a\<close>, \<open>b\<close>, \<open>c\<close>, the tokens of
  \<^verbatim>\<open>a A b B c\<close> parse, in any number of steps from six on, to the tree in which \<open>B\<close>
  groups first, \<^verbatim>\<open>[A, a, [B, b, c]]\<close>, with no token left. Parsing and evaluating
  \<^verbatim>\<open>1 + 2 * 3\<close> gives \<open>7\<close>, and \<^verbatim>\<open>(1 + 2) * 3\<close> gives \<open>9\<close>.
\<close>

theorem precedence:
  "(\<forall>A B ta tb tc va vb a b c n.
      A \<in> set binary_rules \<and> B \<in> set binary_rules \<and> power_of A < power_of B
      \<and> operand ta = Some a \<and> operand tb = Some b \<and> operand tc = Some c \<and> 6 \<le> n
      \<longrightarrow> nextExpression n 0 [ta, Token A va, tb, Token B vb, tc]
            = Parsed (XList [XStr (name_of A), a, XList [XStr (name_of B), b, c]]) [])
   \<and> returned (parse_evaluate 8 tokens_sum_product) = Some (VNum 7)
   \<and> returned (parse_evaluate 8 tokens_grouped) = Some (VNum 9)"
proof (intro conjI allI impI)
  fix A B ta tb tc va vb a b c and n :: nat
  assume h: "A \<in> set binary_rules \<and> B \<in> set binary_rules \<and> power_of A < power_of B
      \<and> operand ta = Some a \<and> operand tb = Some b \<and> operand tc = Some c \<and> 6 \<le> n"
  then have n: "n = Suc (Suc (Suc (Suc (Suc (Suc (n - 6))))))" by arith
  from h have "nextExpression (Suc (Suc (Suc (Suc (Suc (Suc (n - 6))))))) 0
                 [ta, Token A va, tb, Token B vb, tc]
               = Parsed (XList [XStr (name_of A), a, XList [XStr (name_of B), b, c]]) []"
    by (intro stronger_groups_first) blast+
  with n show "nextExpression n 0 [ta, Token A va, tb, Token B vb, tc]
                 = Parsed (XList [XStr (name_of A), a, XList [XStr (name_of B), b, c]]) []"
    by simp
next
  show "returned (parse_evaluate 8 tokens_sum_product) = Some (VNum 7)" by code_simp
next
  show "returned (parse_evaluate 8 tokens_grouped) = Some (VNum 9)" by code_simp
qed

theorem precedence_witness:
  "nextExpression 6 0 tokens_sum_product
     = Parsed (XList [XStr ''+'', XNum 1, XList [XStr ''*'', XNum 2, XNum 3]]) []"
proof -
  have h: "R_plus \<in> set binary_rules \<and> R_times \<in> set binary_rules \<and> power_of R_plus < power_of R_times
      \<and> operand (Token R_number ''1'') = Some (XNum 1) \<and> operand (Token R_number ''2'') = Some (XNum 2)
      \<and> operand (Token R_number ''3'') = Some (XNum 3) \<and> (6::nat) \<le> 6"
    by code_simp
  have "nextExpression 6 0 [Token R_number ''1'', Token R_plus ''+'', Token R_number ''2'',
                            Token R_times ''*'', Token R_number ''3'']
          = Parsed (XList [XStr (name_of R_plus), XNum 1, XList [XStr (name_of R_times), XNum 2, XNum 3]]) []"
    by (rule precedence[THEN conjunct1, rule_format]) (rule h)
  then show ?thesis by (simp add: tokens_sum_product_def)
qed

text \<open>
  C8. The binding power with which each prefix operator parses its right operand, for any
  \<^verbatim>\<open>nextExpression\<close>: the handlers of unary \<^verbatim>\<open>+\<close> and \<^verbatim>\<open>-\<close> ask for power 70, the
  handlers of \<^verbatim>\<open>!\<close> and \<^verbatim>\<open>not\<close> ask for power 0. So \<^verbatim>\<open>+b * c\<close> and
  \<^verbatim>\<open>-2 * 3\<close> apply the sign to the first factor only, while \<^verbatim>\<open>!b * c\<close> and
  \<^verbatim>\<open>not b * c\<close> take the whole product \<^verbatim>\<open>b * c\<close> as the operand.
\<close>

theorem unary_operand_power:
  "(\<forall>ne v ts. prefix_handler ne R_plus v ts = ne 70 ts)
   \<and> (\<forall>ne v ts. prefix_handler ne R_minus v ts =
         thenParse (ne 70 ts) (\<lambda>x ts1. case negate x of Some y \<Rightarrow> Parsed y ts1 | None \<Rightarrow> ParseUnmodelled))
   \<and> (\<forall>ne v ts. prefix_handler ne R_bang v ts =
         thenParse (ne 0 ts) (\<lambda>x ts1. Parsed (XList [XStr ''!'', x]) ts1))
   \<and> (\<forall>ne v ts. prefix_handler ne R_not v ts =
         thenParse (ne 0 ts) (\<lambda>x ts1. Parsed (XList [XStr ''!'', x]) ts1))
   \<and> nextExpression 6 0 tokens_plus_product = Parsed (XList [XStr ''*'', XStr ''b'', XStr ''c'']) []
   \<and> nextExpression 6 0 tokens_minus_product = Parsed (XList [XStr ''*'', XNum (- 2), XNum 3]) []
   \<and> nextExpression 6 0 tokens_bang_product
       = Parsed (XList [XStr ''!'', XList [XStr ''*'', XStr ''b'', XStr ''c'']]) []
   \<and> nextExpression 6 0 tokens_not_product
       = Parsed (XList [XStr ''!'', XList [XStr ''*'', XStr ''b'', XStr ''c'']]) []"
proof (intro conjI allI)
  show "nextExpression 6 0 tokens_plus_product = Parsed (XList [XStr ''*'', XStr ''b'', XStr ''c'']) []"
    by code_simp
  show "nextExpression 6 0 tokens_minus_product = Parsed (XList [XStr ''*'', XNum (- 2), XNum 3]) []"
    by code_simp
  show "nextExpression 6 0 tokens_bang_product
       = Parsed (XList [XStr ''!'', XList [XStr ''*'', XStr ''b'', XStr ''c'']]) []"
    by code_simp
  show "nextExpression 6 0 tokens_not_product
       = Parsed (XList [XStr ''!'', XList [XStr ''*'', XStr ''b'', XStr ''c'']]) []"
    by code_simp
qed (simp_all add: prefix_handler_def)

end
